theory Spec2Isabelle
  imports Complex_Main "HOL-Library.Monad_Syntax"
begin

section \<open>Strings and the fixed texts of the program\<close>

text \<open>
  JavaScript strings are modelled as \<^typ>\<open>string\<close>, a list of bytes holding the UTF-8
  encoding of the text. The empty string is \<open>[]\<close>; it is the only falsy string.
  The object keys of the schema are Japanese; each gets a constant whose value is the
  UTF-8 encoding of the key as written in \<^verbatim>\<open>api/webhook.ts\<close>, under a
  romanised name:
  \<^item> \<open>k_tango\<close> (word), \<open>k_hatsuon\<close> (phonetic symbols), \<open>k_hinshi\<close> (part of speech),
    \<open>k_imi\<close> (meanings), \<open>k_gogen\<close> (etymology), \<open>k_collocation\<close> (collocations),
    \<open>k_reibun\<close> (example sentences), \<open>k_CEFR\<close>, \<open>k_ruigigo\<close> (synonyms),
    \<open>k_shutten_URL\<close> (source URL);
  \<^item> \<open>k_ei\<close> (English) and \<open>k_nichi\<close> (Japanese), the two keys of an example sentence.
\<close>

definition k_tango :: string where
  "k_tango = [CHR 0xE5, CHR 0x8D, CHR 0x98, CHR 0xE8, CHR 0xAA, CHR 0x9E]"

definition k_hatsuon :: string where
  "k_hatsuon = [CHR 0xE7, CHR 0x99, CHR 0xBA, CHR 0xE9, CHR 0x9F, CHR 0xB3,
                CHR 0xE8, CHR 0xA8, CHR 0x98, CHR 0xE5, CHR 0x8F, CHR 0xB7]"

definition k_hinshi :: string where
  "k_hinshi = [CHR 0xE5, CHR 0x93, CHR 0x81, CHR 0xE8, CHR 0xA9, CHR 0x9E]"

definition k_imi :: string where
  "k_imi = [CHR 0xE6, CHR 0x84, CHR 0x8F, CHR 0xE5, CHR 0x91, CHR 0xB3]"

definition k_gogen :: string where
  "k_gogen = [CHR 0xE8, CHR 0xAA, CHR 0x9E, CHR 0xE6, CHR 0xBA, CHR 0x90]"

definition k_collocation :: string where
  "k_collocation = [CHR 0xE3, CHR 0x82, CHR 0xB3, CHR 0xE3, CHR 0x83, CHR 0xAD,
                    CHR 0xE3, CHR 0x82, CHR 0xB1, CHR 0xE3, CHR 0x83, CHR 0xBC,
                    CHR 0xE3, CHR 0x82, CHR 0xB7, CHR 0xE3, CHR 0x83, CHR 0xA7,
                    CHR 0xE3, CHR 0x83, CHR 0xB3]"

definition k_reibun :: string where
  "k_reibun = [CHR 0xE4, CHR 0xBE, CHR 0x8B, CHR 0xE6, CHR 0x96, CHR 0x87]"

definition k_CEFR :: string where
  "k_CEFR = ''CEFR''"

definition k_ruigigo :: string where
  "k_ruigigo = [CHR 0xE9, CHR 0xA1, CHR 0x9E, CHR 0xE7, CHR 0xBE, CHR 0xA9,
                CHR 0xE8, CHR 0xAA, CHR 0x9E]"

definition k_shutten_URL :: string where
  "k_shutten_URL = [CHR 0xE5, CHR 0x87, CHR 0xBA, CHR 0xE5, CHR 0x85, CHR 0xB8] @ ''URL''"

definition k_ei :: string where
  "k_ei = [CHR 0xE8, CHR 0x8B, CHR 0xB1]"

definition k_nichi :: string where
  "k_nichi = [CHR 0xE6, CHR 0x97, CHR 0xA5]"

text \<open>The key of the title property: \<^verbatim>\<open>"Vocabulary"\<close> in \<^verbatim>\<open>api/webhook.ts\<close>.\<close>

definition k_Vocabulary :: string where
  "k_Vocabulary = ''Vocabulary''"

text \<open>
  The bullet marker of a meaning, \<^verbatim>\<open>`\<bullet> ${m}`\<close> (U+2022 and a space), and the
  separator of a translation, two spaces, an em dash (U+2014) and a space.
\<close>

definition bullet :: string where
  "bullet = [CHR 0xE2, CHR 0x80, CHR 0xA2, CHR '' '']"

definition em_dash :: string where
  "em_dash = [CHR '' '', CHR '' '', CHR 0xE2, CHR 0x80, CHR 0x94, CHR '' '']"

section \<open>JSON values\<close>

text \<open>
  The result of \<^verbatim>\<open>JSON.parse\<close>. An object is the list of its own properties, each key
  at most once, read with \<^const>\<open>map_of\<close>; a key that is not in the list reads as
  \<^verbatim>\<open>undefined\<close>, modelled as \<^const>\<open>None\<close>. The schema never looks inside a number, so
  numbers are integers here.
\<close>

datatype json =
    JNull
  | JBool bool
  | JNum int
  | JStr string
  | JArr "json list"
  | JObj "(string \<times> json) list"

section \<open>The Entry type and the schema\<close>

text \<open>
  \<^verbatim>\<open>type Entry = z.infer<typeof Schema>\<close>: the required fields \<open>tango\<close> and
  \<open>imi\<close>, and eight optional ones, where \<^const>\<open>None\<close> is the absent field.
\<close>

record example =
  ei :: string
  nichi :: "string option"

record Entry =
  tango :: string
  hatsuon :: "string option"
  hinshi :: "string list option"
  imi :: "string list"
  gogen :: "string option"
  collocation :: "string list option"
  reibun :: "example list option"
  CEFR :: "string option"
  ruigigo :: "string list option"
  shutten_URL :: "string option"

text \<open>
  Errors are values. \<open>Error msg\<close> is \<^verbatim>\<open>new Error(msg)\<close> created by the program,
  \<open>SyntaxError\<close> what \<^verbatim>\<open>JSON.parse\<close> throws, \<open>ZodError\<close> what
  \<^verbatim>\<open>Schema.parse\<close> throws, \<open>TypeError\<close> what reading a property of \<^verbatim>\<open>undefined\<close>
  throws, and \<open>External d\<close> whatever one of the three service clients throws.
\<close>

datatype error =
    Error string
  | SyntaxError
  | ZodError
  | TypeError
  | External string

subsection \<open>The validators of zod that the schema uses\<close>

text \<open>
  Each validator takes the value found under a key and returns the parsed value, or
  \<^const>\<open>None\<close> when zod reports an issue.
\<close>

fun z_string :: "json \<Rightarrow> string option" where
  "z_string (JStr s) = Some s"
| "z_string _ = None"

fun z_array :: "(json \<Rightarrow> 'a option) \<Rightarrow> json \<Rightarrow> 'a list option" where
  "z_array p (JArr xs) = those (map p xs)"
| "z_array p _ = None"

text \<open>\<^verbatim>\<open>.min(lo)\<close> and \<^verbatim>\<open>.max(hi)\<close> on an array.\<close>

definition z_min :: "nat \<Rightarrow> 'a list option \<Rightarrow> 'a list option" where
  "z_min lo r = (case r of None \<Rightarrow> None | Some xs \<Rightarrow> if lo \<le> length xs then Some xs else None)"

definition z_max :: "nat \<Rightarrow> 'a list option \<Rightarrow> 'a list option" where
  "z_max hi r = (case r of None \<Rightarrow> None | Some xs \<Rightarrow> if length xs \<le> hi then Some xs else None)"

text \<open>
  A required key: the key must be there. \<^verbatim>\<open>.optional()\<close>: a missing key is accepted
  and gives the absent field; a key that is there is validated (JSON has no
  \<^verbatim>\<open>undefined\<close>, and \<^verbatim>\<open>null\<close> is not accepted by \<^verbatim>\<open>.optional()\<close>).
\<close>

definition z_required :: "(json \<Rightarrow> 'a option) \<Rightarrow> json option \<Rightarrow> 'a option" where
  "z_required p v = (case v of None \<Rightarrow> None | Some j \<Rightarrow> p j)"

definition z_optional :: "(json \<Rightarrow> 'a option) \<Rightarrow> json option \<Rightarrow> 'a option option" where
  "z_optional p v = (case v of None \<Rightarrow> Some None | Some j \<Rightarrow> map_option Some (p j))"

text \<open>
  \<^verbatim>\<open>.url()\<close>, used by \<^verbatim>\<open>dist/server.js\<close> only. What counts as a URL is decided
  inside zod, so the test is a parameter.
\<close>

definition z_url :: "(string \<Rightarrow> bool) \<Rightarrow> json \<Rightarrow> string option" where
  "z_url is_url j = (case z_string j of None \<Rightarrow> None | Some s \<Rightarrow> if is_url s then Some s else None)"

text \<open>An element of the examples: \<^verbatim>\<open>z.object({ k_ei: z.string(), k_nichi: z.string().optional() })\<close>\<close>

fun z_example :: "json \<Rightarrow> example option" where
  "z_example (JObj kvs) =
     do {
       e \<leftarrow> z_required z_string (map_of kvs k_ei);
       n \<leftarrow> z_optional z_string (map_of kvs k_nichi);
       Some \<lparr>ei = e, nichi = n\<rparr>
     }"
| "z_example _ = None"

text \<open>
  The object schema, with the validator of the source URL as a parameter: it is the
  only place where the two declarations of \<^verbatim>\<open>Schema\<close> differ. Unknown keys are
  dropped (zod strips them by default); any issue makes \<^verbatim>\<open>parse\<close> throw a ZodError.
\<close>

fun z_object :: "(json \<Rightarrow> string option) \<Rightarrow> json \<Rightarrow> Entry option" where
  "z_object url (JObj kvs) =
     do {
       t \<leftarrow> z_required z_string (map_of kvs k_tango);
       h \<leftarrow> z_optional z_string (map_of kvs k_hatsuon);
       p \<leftarrow> z_optional (z_array z_string) (map_of kvs k_hinshi);
       m \<leftarrow> z_required (\<lambda>j. z_min 1 (z_array z_string j)) (map_of kvs k_imi);
       g \<leftarrow> z_optional z_string (map_of kvs k_gogen);
       c \<leftarrow> z_optional (z_array z_string) (map_of kvs k_collocation);
       r \<leftarrow> z_optional (\<lambda>j. z_max 3 (z_min 1 (z_array z_example j))) (map_of kvs k_reibun);
       l \<leftarrow> z_optional z_string (map_of kvs k_CEFR);
       s \<leftarrow> z_optional (z_array z_string) (map_of kvs k_ruigigo);
       u \<leftarrow> z_optional url (map_of kvs k_shutten_URL);
       Some \<lparr>tango = t, hatsuon = h, hinshi = p, imi = m, gogen = g, collocation = c,
             reibun = r, CEFR = l, ruigigo = s, shutten_URL = u\<rparr>
     }"
| "z_object url _ = None"

definition parse :: "(json \<Rightarrow> Entry option) \<Rightarrow> json \<Rightarrow> error + Entry" where
  "parse schema c = (case schema c of None \<Rightarrow> Inl ZodError | Some e \<Rightarrow> Inr e)"

text \<open>\<^verbatim>\<open>Schema.parse\<close> of \<^verbatim>\<open>api/webhook.ts\<close>: the source URL is \<^verbatim>\<open>z.string().optional()\<close>.\<close>

definition Schema_parse :: "json \<Rightarrow> error + Entry" where
  "Schema_parse = parse (z_object z_string)"

text \<open>\<^verbatim>\<open>Schema.parse\<close> of \<^verbatim>\<open>dist/server.js\<close>: \<^verbatim>\<open>z.string().url().optional()\<close>.\<close>

definition Schema_parse_dist :: "(string \<Rightarrow> bool) \<Rightarrow> json \<Rightarrow> error + Entry" where
  "Schema_parse_dist is_url = parse (z_object (z_url is_url))"

text \<open>A validator accepts a value when it reports no issue.\<close>

definition accepted :: "'a option \<Rightarrow> bool" where
  "accepted r = (r \<noteq> None)"

subsection \<open>The schema as the specification describes it\<close>

text \<open>
  The data model of the specification (its section 3), written from its words as a
  predicate on the candidate alone, to be compared with \<^const>\<open>Schema_parse\<close> below:
  word (string, required, non-empty); phonetic (string, optional); part of speech
  (list of string, optional); meanings (list of string, required, at least one);
  etymology (string, optional); collocations (list of string, optional); examples
  (list of source: string and translation: string optional; optional, between 1 and 3
  items when present); CEFR level (string, optional); synonyms (list of string,
  optional); source URL (string, optional, must be a valid URL when present).
  Which strings are valid URLs is the parameter \<open>is_url\<close>.

  \<open>matches_schema_with word_ok url_ok\<close> is this data model with what it asks of the
  word and of the source URL as parameters. \<open>matches_schema is_url\<close> is the data
  model itself. \<open>matches_schema_any_word is_url\<close> is the data model without
  ``non-empty'': the word is any string.
\<close>

fun is_string :: "json \<Rightarrow> bool" where
  "is_string (JStr s) = True"
| "is_string _ = False"

fun is_nonempty_string :: "json \<Rightarrow> bool" where
  "is_nonempty_string (JStr s) = (s \<noteq> [])"
| "is_nonempty_string _ = False"

fun is_url_string :: "(string \<Rightarrow> bool) \<Rightarrow> json \<Rightarrow> bool" where
  "is_url_string is_url (JStr s) = is_url s"
| "is_url_string is_url _ = False"

fun is_array_of :: "(json \<Rightarrow> bool) \<Rightarrow> json \<Rightarrow> bool" where
  "is_array_of P (JArr xs) = list_all P xs"
| "is_array_of P _ = False"

fun array_length :: "json \<Rightarrow> nat" where
  "array_length (JArr xs) = length xs"
| "array_length _ = 0"

definition present_and :: "(json \<Rightarrow> bool) \<Rightarrow> json option \<Rightarrow> bool" where
  "present_and P v = (case v of None \<Rightarrow> False | Some j \<Rightarrow> P j)"

definition absent_or :: "(json \<Rightarrow> bool) \<Rightarrow> json option \<Rightarrow> bool" where
  "absent_or P v = (case v of None \<Rightarrow> True | Some j \<Rightarrow> P j)"

fun is_example :: "json \<Rightarrow> bool" where
  "is_example (JObj kvs) =
     (present_and is_string (map_of kvs k_ei) \<and> absent_or is_string (map_of kvs k_nichi))"
| "is_example _ = False"

fun matches_schema_with :: "(json \<Rightarrow> bool) \<Rightarrow> (json \<Rightarrow> bool) \<Rightarrow> json \<Rightarrow> bool" where
  "matches_schema_with word_ok url_ok (JObj kvs) =
     (present_and word_ok (map_of kvs k_tango) \<and>
      absent_or is_string (map_of kvs k_hatsuon) \<and>
      absent_or (is_array_of is_string) (map_of kvs k_hinshi) \<and>
      present_and (\<lambda>j. is_array_of is_string j \<and> 1 \<le> array_length j) (map_of kvs k_imi) \<and>
      absent_or is_string (map_of kvs k_gogen) \<and>
      absent_or (is_array_of is_string) (map_of kvs k_collocation) \<and>
      absent_or (\<lambda>j. is_array_of is_example j \<and> 1 \<le> array_length j \<and> array_length j \<le> 3)
        (map_of kvs k_reibun) \<and>
      absent_or is_string (map_of kvs k_CEFR) \<and>
      absent_or (is_array_of is_string) (map_of kvs k_ruigigo) \<and>
      absent_or url_ok (map_of kvs k_shutten_URL))"
| "matches_schema_with word_ok url_ok _ = False"

definition matches_schema :: "(string \<Rightarrow> bool) \<Rightarrow> json \<Rightarrow> bool" where
  "matches_schema is_url = matches_schema_with is_nonempty_string (is_url_string is_url)"

definition matches_schema_any_word :: "(string \<Rightarrow> bool) \<Rightarrow> json \<Rightarrow> bool" where
  "matches_schema_any_word is_url = matches_schema_with is_string (is_url_string is_url)"

text \<open>
  The source URL of a candidate is in order: the key is missing, or bound to a valid
  URL, or bound to a value that is no string at all.
\<close>

fun source_URL_in_order :: "(string \<Rightarrow> bool) \<Rightarrow> json \<Rightarrow> bool" where
  "source_URL_in_order is_url (JObj kvs) =
     (case map_of kvs k_shutten_URL of Some (JStr u) \<Rightarrow> is_url u | _ \<Rightarrow> True)"
| "source_URL_in_order is_url _ = True"

section \<open>Effects, the world and the environment\<close>

text \<open>
  The payloads sent to the document database. A property value keeps the constructor of
  the Notion property type and the text contents placed in it:
  \<^verbatim>\<open>{ title: [{ text: { content: s } }] }\<close> is \<open>Title [s]\<close>, and so on. A block is a
  \<^verbatim>\<open>bulleted_list_item\<close> with the contents of its rich-text segments.
\<close>

datatype property =
    Title "string list"
  | RichText "string list"
  | MultiSelect "string list"
  | Select string
  | Url string

datatype block = BulletedListItem "string list"

text \<open>
  An object literal whose property may be \<^verbatim>\<open>undefined\<close>: the list of its keys, each
  with \<open>Some\<close> value or \<^const>\<open>None\<close> for \<^verbatim>\<open>undefined\<close>.
\<close>

type_synonym props = "(string \<times> property option) list"

text \<open>
  What \<^verbatim>\<open>retry\<close> can throw: \<open>Thrown e\<close> is the error \<open>e\<close> that the wrapped operation
  threw, passed on as it is; \<open>RetryFailed\<close> is the fresh
  \<^verbatim>\<open>new Error("Retry failed")\<close> of the last line of \<^verbatim>\<open>retry\<close>. The two are kept apart
  as JavaScript keeps the objects apart, whatever their messages.
\<close>

datatype thrown = Thrown error | RetryFailed

text \<open>
  A JavaScript number, as far as \<^verbatim>\<open>retry\<close> computes with one: a rational number, an
  infinity or \<^verbatim>\<open>NaN\<close>. The arithmetic is exact: the rounding of doubles is not
  modelled, and neither is the sign of zero. \<open>js_less\<close> is \<^verbatim>\<open><\<close>, \<open>js_less_eq\<close> is
  \<^verbatim>\<open><=\<close>, \<open>js_strict_eq\<close> is \<^verbatim>\<open>===\<close>, \<open>js_minus_one\<close> is \<^verbatim>\<open>x - 1\<close> and
  \<open>js_double\<close> is \<^verbatim>\<open>x * 2\<close>; every comparison with \<^verbatim>\<open>NaN\<close> is false. \<open>num i\<close> is the
  number of the integer \<open>i\<close>.
\<close>

datatype number = Finite rat | PosInfinity | NegInfinity | NaN

fun js_less :: "number \<Rightarrow> number \<Rightarrow> bool" where
  "js_less (Finite a) (Finite b) = (a < b)"
| "js_less (Finite a) PosInfinity = True"
| "js_less NegInfinity (Finite b) = True"
| "js_less NegInfinity PosInfinity = True"
| "js_less _ _ = False"


fun js_strict_eq :: "number \<Rightarrow> number \<Rightarrow> bool" where
  "js_strict_eq (Finite a) (Finite b) = (a = b)"
| "js_strict_eq PosInfinity PosInfinity = True"
| "js_strict_eq NegInfinity NegInfinity = True"
| "js_strict_eq _ _ = False"

fun js_minus_one :: "number \<Rightarrow> number" where
  "js_minus_one (Finite a) = Finite (a - 1)"
| "js_minus_one x = x"

fun js_double :: "number \<Rightarrow> number" where
  "js_double (Finite a) = Finite (a * 2)"
| "js_double x = x"

definition num :: "int \<Rightarrow> number" where
  "num i = Finite (of_int i)"

text \<open>
  The world is the list of the effects performed so far, oldest first.
  \<open>OpInvoked\<close> is recorded by an instrumented operation each time it is invoked; no
  code of the repository performs it. \<open>ChatCompletionsCreate model word\<close> is the request
  to the language model (the client is built and the request is sent): the system text
  and the schema are fixed and the user text is determined by the word.
\<close>

datatype effect =
    OpInvoked
  | ConsoleWarn int number error
  | Sleep number
  | ConsoleLog string
  | ConsoleError string thrown
  | ChatCompletionsCreate string string
  | PagesCreate "string option" props
  | BlocksChildrenAppend string "block list"
  | ReplyMessage "string option" string

type_synonym world = "effect list"

text \<open>
  The environment: the variables read from \<^verbatim>\<open>process.env\<close>, and the answers of the
  external services. An answer is a function of the world at the moment the request
  has been recorded, so a service may answer differently each time it is called.
  \<^item> \<open>chat_completions_create\<close> gives \<^verbatim>\<open>completion.choices[0]?.message?.content\<close>
    (\<^const>\<open>None\<close> when it is \<^verbatim>\<open>undefined\<close> or \<^verbatim>\<open>null\<close>) or the error thrown;
  \<^item> \<open>JSON_parse\<close> is \<^verbatim>\<open>JSON.parse\<close>, \<^const>\<open>None\<close> when it throws a SyntaxError;
  \<^item> \<open>pages_create\<close> gives the \<^verbatim>\<open>id\<close> of the created page or the error thrown;
  \<^item> \<open>blocks_children_append\<close> and \<open>replyMessage\<close> succeed or give the error thrown.
\<close>

record env =
  LINE_ACCESS_TOKEN :: "string option"
  NOTION_TOKEN :: "string option"
  NOTION_DATABASE_ID :: "string option"
  OPENAI_MODEL :: "string option"
  chat_completions_create :: "world \<Rightarrow> error + string option"
  JSON_parse :: "string \<Rightarrow> json option"
  pages_create :: "world \<Rightarrow> error + string"
  blocks_children_append :: "world \<Rightarrow> error + unit"
  replyMessage :: "world \<Rightarrow> error + unit"

text \<open>Truthiness of a string that may be \<^verbatim>\<open>undefined\<close>: defined and not empty.\<close>

definition truthy :: "string option \<Rightarrow> bool" where
  "truthy v = (case v of None \<Rightarrow> False | Some s \<Rightarrow> s \<noteq> [])"

text \<open>
  \<^verbatim>\<open>const lineClient = LINE_ACCESS_TOKEN ? new LineClient(...) : null\<close> and
  \<^verbatim>\<open>const notion = NOTION_TOKEN ? new Notion(...) : null\<close>: each client exists when its
  token is truthy. \<^verbatim>\<open>OPENAI_MODEL = "gpt-4o-mini"\<close> is the default of an undefined
  variable.
\<close>

definition lineClient :: "env \<Rightarrow> bool" where
  "lineClient E = truthy (LINE_ACCESS_TOKEN E)"

definition notion :: "env \<Rightarrow> bool" where
  "notion E = truthy (NOTION_TOKEN E)"

definition model_name :: "env \<Rightarrow> string" where
  "model_name E = (case OPENAI_MODEL E of None \<Rightarrow> ''gpt-4o-mini'' | Some m \<Rightarrow> m)"

section \<open>The retry wrapper\<close>

text \<open>
  \<^verbatim>\<open>retry(fn, maxRetries = 3, delay = 1000)\<close>. The operation \<open>fn\<close> takes the world and
  returns its outcome and the new world. \<open>maxRetries\<close> and \<open>delay\<close> are numbers.
  \<open>retry_loop\<close> is the \<^verbatim>\<open>for\<close> loop entered with the counter \<open>i\<close>, which starts at 0
  and is incremented, so it is an integer. With \<open>maxRetries\<close> infinite and an operation
  that fails every time the loop never ends: the result is an option, and
  \<^const>\<open>None\<close> is the run that never returns.
\<close>

partial_function (option) retry_loop ::
  "(world \<Rightarrow> (error + 'a) \<times> world) \<Rightarrow> number \<Rightarrow> int \<Rightarrow> number \<Rightarrow> world \<Rightarrow>
   ((thrown + 'a) \<times> world) option" where
  "retry_loop fn maxRetries i delay w =
     (if js_less (num i) maxRetries then
        (case fn w of
           (Inr v, w') \<Rightarrow> Some (Inr v, w')
         | (Inl err, w') \<Rightarrow>
             if js_strict_eq (num i) (js_minus_one maxRetries) then Some (Inl (Thrown err), w')
             else retry_loop fn maxRetries (i + 1) (js_double delay)
                    (w' @ [ConsoleWarn (i + 1) delay err, Sleep delay]))
      else Some (Inl RetryFailed, w))"

declare retry_loop.simps [code]

definition retry ::
  "(world \<Rightarrow> (error + 'a) \<times> world) \<Rightarrow> number \<Rightarrow> number \<Rightarrow> world \<Rightarrow>
   ((thrown + 'a) \<times> world) option" where
  "retry fn maxRetries delay = retry_loop fn maxRetries 0 delay"

text \<open>
  When \<open>maxRetries\<close> is an integer the loop ends, since \<open>maxRetries - i\<close> decreases:
  \<open>retry_loop_int\<close> is the same loop as a total function of the integer
  \<open>maxRetries\<close>, and \<open>retry_int\<close> is \<^verbatim>\<open>retry\<close> there. That the two loops agree is
  lemma \<open>retry_loop_int_agrees\<close> below.
\<close>

function retry_loop_int ::
  "(world \<Rightarrow> (error + 'a) \<times> world) \<Rightarrow> int \<Rightarrow> int \<Rightarrow> number \<Rightarrow> world \<Rightarrow> (thrown + 'a) \<times> world" where
  "retry_loop_int fn maxRetries i delay w =
     (if i < maxRetries then
        (case fn w of
           (Inr v, w') \<Rightarrow> (Inr v, w')
         | (Inl err, w') \<Rightarrow>
             if i = maxRetries - 1 then (Inl (Thrown err), w')
             else retry_loop_int fn maxRetries (i + 1) (js_double delay)
                    (w' @ [ConsoleWarn (i + 1) delay err, Sleep delay]))
      else (Inl RetryFailed, w))"
  by pat_completeness auto
termination
  by (relation "measure (\<lambda>(fn, maxRetries, i, delay, w). nat (maxRetries - i))") auto

definition retry_int ::
  "(world \<Rightarrow> (error + 'a) \<times> world) \<Rightarrow> int \<Rightarrow> number \<Rightarrow> world \<Rightarrow> (thrown + 'a) \<times> world" where
  "retry_int fn maxRetries delay = retry_loop_int fn maxRetries 0 delay"

text \<open>
  A call that leaves both defaults, \<^verbatim>\<open>retry(fn)\<close>: three attempts, 1000 ms. It always
  returns, and what it returns is \<^verbatim>\<open>retry\<close> at these arguments (lemma
  \<open>retry_default_agrees\<close> below).
\<close>

definition retry_default :: "(world \<Rightarrow> (error + 'a) \<times> world) \<Rightarrow> world \<Rightarrow> (thrown + 'a) \<times> world" where
  "retry_default fn = retry_int fn 3 (Finite 1000)"



definition invocations :: "world \<Rightarrow> nat" where
  "invocations w = count_list w OpInvoked"

text \<open>
  How \<^verbatim>\<open>retry\<close> passes on the outcome of an invocation of \<open>fn\<close>: a value is
  returned as it is (\<^verbatim>\<open>return await fn()\<close>), an error is thrown as it is
  (\<^verbatim>\<open>throw error\<close>).
\<close>

definition passed_on :: "(error + 'a) \<times> world \<Rightarrow> (thrown + 'a) \<times> world" where
  "passed_on r = (case r of (Inr v, w) \<Rightarrow> (Inr v, w) | (Inl e, w) \<Rightarrow> (Inl (Thrown e), w))"





section \<open>The entry builder\<close>

text \<open>
  \<^verbatim>\<open>buildEntry(word)\<close>: under \<^verbatim>\<open>retry\<close> with the defaults, ask the language model,
  fail with \<^verbatim>\<open>"No response from OpenAI"\<close> when the text is falsy, then
  \<^verbatim>\<open>Schema.parse(JSON.parse(text))\<close>.
\<close>

definition buildEntry_attempt :: "env \<Rightarrow> string \<Rightarrow> world \<Rightarrow> (error + Entry) \<times> world" where
  "buildEntry_attempt E word w =
     (let w1 = w @ [ChatCompletionsCreate (model_name E) word] in
      case chat_completions_create E w1 of
        Inl err \<Rightarrow> (Inl err, w1)
      | Inr text \<Rightarrow>
          if \<not> truthy text then (Inl (Error ''No response from OpenAI''), w1)
          else (case JSON_parse E (the text) of
                  None \<Rightarrow> (Inl SyntaxError, w1)
                | Some j \<Rightarrow> (Schema_parse j, w1)))"

definition buildEntry :: "env \<Rightarrow> string \<Rightarrow> world \<Rightarrow> (thrown + Entry) \<times> world" where
  "buildEntry E word = retry_default (buildEntry_attempt E word)"

section \<open>The persistence adapter\<close>

text \<open>\<^verbatim>\<open>xs.join(", ")\<close>\<close>

fun join :: "string \<Rightarrow> string list \<Rightarrow> string" where
  "join sep [] = []"
| "join sep [x] = x"
| "join sep (x # y # ys) = x @ sep @ join sep (y # ys)"

text \<open>
  \<^verbatim>\<open>v ? f(v) : undefined\<close> on an optional string: the property is set only for a truthy
  string. On an optional array: every array is truthy, the empty one too.
\<close>

definition if_truthy :: "string option \<Rightarrow> (string \<Rightarrow> property) \<Rightarrow> property option" where
  "if_truthy v f = (if truthy v then Some (f (the v)) else None)"

definition if_array :: "string list option \<Rightarrow> (string list \<Rightarrow> property) \<Rightarrow> property option" where
  "if_array v f = map_option f v"

text \<open>
  The object literal \<^verbatim>\<open>props\<close>, with the key of the title as a parameter:
  \<^verbatim>\<open>"Vocabulary"\<close> in \<^verbatim>\<open>api/webhook.ts\<close>, the key \<open>k_tango\<close> in \<^verbatim>\<open>dist/server.js\<close>;
  the rest of the literal is the same in both files.
\<close>

definition props_with :: "string \<Rightarrow> Entry \<Rightarrow> props" where
  "props_with title_key e =
     [(title_key, Some (Title [tango e])),
      (k_hatsuon, if_truthy (hatsuon e) (\<lambda>s. RichText [s])),
      (k_hinshi, if_array (hinshi e) MultiSelect),
      (k_imi, Some (RichText (map (\<lambda>m. bullet @ m) (imi e)))),
      (k_gogen, if_truthy (gogen e) (\<lambda>s. RichText [s])),
      (k_collocation, if_array (collocation e) (\<lambda>xs. RichText [join '', '' xs])),
      (k_CEFR, if_truthy (CEFR e) Select),
      (k_ruigigo, if_array (ruigigo e) (\<lambda>xs. RichText [join '', '' xs])),
      (k_shutten_URL, if_truthy (shutten_URL e) Url)]"

definition page_props :: "Entry \<Rightarrow> props" where
  "page_props = props_with k_Vocabulary"

definition page_props_dist :: "Entry \<Rightarrow> props" where
  "page_props_dist = props_with k_tango"

text \<open>
  The properties that reach the service: the request body is JSON, and
  \<^verbatim>\<open>JSON.stringify\<close> leaves out every property whose value is \<^verbatim>\<open>undefined\<close>.
\<close>

fun sent_props :: "props \<Rightarrow> (string \<times> property) list" where
  "sent_props [] = []"
| "sent_props ((k, None) # ps) = sent_props ps"
| "sent_props ((k, Some v) # ps) = (k, v) # sent_props ps"

text \<open>One child block per example: the source, then the translation when it is truthy.\<close>

definition example_block :: "example \<Rightarrow> block" where
  "example_block s =
     BulletedListItem (ei s # (if truthy (nichi s) then [em_dash @ the (nichi s)] else []))"

text \<open>\<^verbatim>\<open>e.\<close>\<open>reibun\<close>\<^verbatim>\<open> && e.\<close>\<open>reibun\<close>\<^verbatim>\<open>.length\<close>\<close>

definition has_examples :: "Entry \<Rightarrow> bool" where
  "has_examples e = (case reibun e of None \<Rightarrow> False | Some xs \<Rightarrow> xs \<noteq> [])"

definition saveToNotion_attempt :: "env \<Rightarrow> Entry \<Rightarrow> world \<Rightarrow> (error + unit) \<times> world" where
  "saveToNotion_attempt E e w =
     (let w1 = w @ [PagesCreate (NOTION_DATABASE_ID E) (page_props e)] in
      case pages_create E w1 of
        Inl err \<Rightarrow> (Inl err, w1)
      | Inr page_id \<Rightarrow>
          if has_examples e then
            (let w2 = w1 @ [BlocksChildrenAppend page_id (map example_block (the (reibun e)))] in
             case blocks_children_append E w2 of
               Inl err \<Rightarrow> (Inl err, w2)
             | Inr u \<Rightarrow> (Inr (), w2))
          else (Inr (), w1))"

definition saveToNotion :: "env \<Rightarrow> Entry \<Rightarrow> world \<Rightarrow> (thrown + unit) \<times> world" where
  "saveToNotion E e w =
     (if \<not> notion E then (Inl (Thrown (Error ''Notion client not initialized'')), w)
      else retry_default (saveToNotion_attempt E e) w)"

section \<open>The event dispatcher\<close>

text \<open>
  \<^verbatim>\<open>String.prototype.trim\<close> removes the white space and the line terminators of
  ECMAScript from both ends: U+0009 to U+000D, U+0020, U+00A0, U+1680, U+2000 to
  U+200A, U+2028, U+2029, U+202F, U+205F, U+3000 and U+FEFF, here in UTF-8.
\<close>

definition js_whitespace :: "string list" where
  "js_whitespace =
     [[CHR 0x09], [CHR 0x0A], [CHR 0x0B], [CHR 0x0C], [CHR 0x0D], [CHR 0x20],
      [CHR 0xC2, CHR 0xA0], [CHR 0xE1, CHR 0x9A, CHR 0x80],
      [CHR 0xE2, CHR 0x80, CHR 0x80], [CHR 0xE2, CHR 0x80, CHR 0x81],
      [CHR 0xE2, CHR 0x80, CHR 0x82], [CHR 0xE2, CHR 0x80, CHR 0x83],
      [CHR 0xE2, CHR 0x80, CHR 0x84], [CHR 0xE2, CHR 0x80, CHR 0x85],
      [CHR 0xE2, CHR 0x80, CHR 0x86], [CHR 0xE2, CHR 0x80, CHR 0x87],
      [CHR 0xE2, CHR 0x80, CHR 0x88], [CHR 0xE2, CHR 0x80, CHR 0x89],
      [CHR 0xE2, CHR 0x80, CHR 0x8A], [CHR 0xE2, CHR 0x80, CHR 0xA8],
      [CHR 0xE2, CHR 0x80, CHR 0xA9], [CHR 0xE2, CHR 0x80, CHR 0xAF],
      [CHR 0xE2, CHR 0x81, CHR 0x9F], [CHR 0xE3, CHR 0x80, CHR 0x80],
      [CHR 0xEF, CHR 0xBB, CHR 0xBF]]"

text \<open>Remove from the front of \<open>s\<close>, as long as there is one, a member of \<open>pats\<close>.\<close>

function strip_front :: "string list \<Rightarrow> string \<Rightarrow> string" where
  "strip_front pats s =
     (case find (\<lambda>p. p \<noteq> [] \<and> take (length p) s = p) pats of
        None \<Rightarrow> s
      | Some p \<Rightarrow> strip_front pats (drop (length p) s))"
  by pat_completeness auto
termination
proof (relation "measure (\<lambda>(pats, s). length s)")
  show "wf (measure (\<lambda>(pats, s). length s))"
    by simp
next
  fix pats :: "string list" and s p :: string
  assume "find (\<lambda>p. p \<noteq> [] \<and> take (length p) s = p) pats = Some p"
  then have "p \<noteq> []" and "take (length p) s = p"
    by (auto simp: find_Some_iff)
  then have "s \<noteq> []" and "0 < length p"
    by auto
  then show "((pats, drop (length p) s), (pats, s)) \<in> measure (\<lambda>(pats, s). length s)"
    by simp
qed

definition trim :: "string \<Rightarrow> string" where
  "trim s = rev (strip_front (map rev js_whitespace) (rev (strip_front js_whitespace s)))"

text \<open>
  \<^verbatim>\<open>WebhookEvent\<close> is a tagged union. The dispatcher reads the tag of the event, the
  tag of its message, the text of a text message and \<^verbatim>\<open>replyToken\<close>; an event
  keeps these. The token is \<^const>\<open>None\<close> when the event has no \<^verbatim>\<open>replyToken\<close>
  property, so that \<^verbatim>\<open>"replyToken" in event\<close> is \<open>replyToken event \<noteq> None\<close>.
  \<open>OtherMessage t\<close> is a message of another type \<open>t\<close>, \<open>OtherEvent t tok\<close> an event of
  another type \<open>t\<close>.
\<close>

datatype message = TextMessage string | OtherMessage string

datatype event = MessageEvent "string option" message | OtherEvent string "string option"

fun replyToken :: "event \<Rightarrow> string option" where
  "replyToken (MessageEvent tok m) = tok"
| "replyToken (OtherEvent t tok) = tok"

text \<open>The two texts of a reply: the confirmation that names the word, and the fixed failure notice.\<close>

definition success_text :: "string \<Rightarrow> string" where
  "success_text word =
     [CHR 0xE3, CHR 0x80, CHR 0x8C] @ word @ [CHR 0xE3, CHR 0x80, CHR 0x8D, CHR 0xE3, CHR 0x82, CHR 0x92] @ ''Notion'' @
     [CHR 0xE3, CHR 0x81, CHR 0xAB, CHR 0xE8, CHR 0xBF, CHR 0xBD,
     CHR 0xE5, CHR 0x8A, CHR 0xA0, CHR 0xE3, CHR 0x81, CHR 0x97,
     CHR 0xE3, CHR 0x81, CHR 0xBE, CHR 0xE3, CHR 0x81, CHR 0x97,
     CHR 0xE3, CHR 0x81, CHR 0x9F, CHR '' '', CHR 0xE2, CHR 0x9C,
     CHR 0x85]"

definition failure_text :: string where
  "failure_text =
     [CHR 0xE7, CHR 0x99, CHR 0xBB, CHR 0xE9, CHR 0x8C, CHR 0xB2,
     CHR 0xE4, CHR 0xB8, CHR 0xAD, CHR 0xE3, CHR 0x81, CHR 0xAB,
     CHR 0xE3, CHR 0x82, CHR 0xA8, CHR 0xE3, CHR 0x83, CHR 0xA9,
     CHR 0xE3, CHR 0x83, CHR 0xBC, CHR 0xE3, CHR 0x81, CHR 0x8C,
     CHR 0xE7, CHR 0x99, CHR 0xBA, CHR 0xE7, CHR 0x94, CHR 0x9F,
     CHR 0xE3, CHR 0x81, CHR 0x97, CHR 0xE3, CHR 0x81, CHR 0xBE,
     CHR 0xE3, CHR 0x81, CHR 0x97, CHR 0xE3, CHR 0x81, CHR 0x9F,
     CHR 0xE3, CHR 0x80, CHR 0x82, CHR 0xE3, CHR 0x82, CHR 0x82,
     CHR 0xE3, CHR 0x81, CHR 0x86, CHR 0xE4, CHR 0xB8, CHR 0x80,
     CHR 0xE5, CHR 0xBA, CHR 0xA6, CHR 0xE3, CHR 0x81, CHR 0x8A,
     CHR 0xE8, CHR 0xA9, CHR 0xA6, CHR 0xE3, CHR 0x81, CHR 0x97,
     CHR 0xE3, CHR 0x81, CHR 0x8F, CHR 0xE3, CHR 0x81, CHR 0xA0,
     CHR 0xE3, CHR 0x81, CHR 0x95, CHR 0xE3, CHR 0x81, CHR 0x84,
     CHR 0xE3, CHR 0x80, CHR 0x82]"

text \<open>
  The \<^verbatim>\<open>try\<close> block of \<^verbatim>\<open>handleEventSafely\<close>. An early \<^verbatim>\<open>return\<close> is \<open>Inr ()\<close>
  with the world as it is; a throw is \<open>Inl\<close>.
\<close>

fun handleEvent_try :: "env \<Rightarrow> event \<Rightarrow> world \<Rightarrow> (thrown + unit) \<times> world" where
  "handleEvent_try E (OtherEvent t tok) w = (Inr (), w)"
| "handleEvent_try E (MessageEvent tok (OtherMessage t)) w = (Inr (), w)"
| "handleEvent_try E (MessageEvent tok (TextMessage text)) w =
     (let word = trim text in
      if word = [] then (Inr (), w)
      else
        (let w1 = w @ [ConsoleLog (''Processing word: '' @ word)] in
         case buildEntry E word w1 of
           (Inl err, w2) \<Rightarrow> (Inl err, w2)
         | (Inr entry, w2) \<Rightarrow>
             (let w3 = w2 @ [ConsoleLog (''Built entry for: '' @ tango entry)] in
              case saveToNotion E entry w3 of
                (Inl err, w4) \<Rightarrow> (Inl err, w4)
              | (Inr u, w4) \<Rightarrow>
                  (let w5 = w4 @ [ConsoleLog (''Saved to Notion: '' @ tango entry)] in
                   if lineClient E then
                     (let w6 = w5 @ [ReplyMessage tok (success_text (tango entry))] in
                      case replyMessage E w6 of
                        Inl err \<Rightarrow> (Inl (Thrown err), w6)
                      | Inr u \<Rightarrow> (Inr (), w6))
                   else (Inr (), w5)))))"

text \<open>The \<^verbatim>\<open>catch\<close> block, entered with the error \<open>err\<close> and the world at the throw.\<close>

definition handleEvent_catch :: "env \<Rightarrow> event \<Rightarrow> thrown \<Rightarrow> world \<Rightarrow> (thrown + unit) \<times> world" where
  "handleEvent_catch E event err w =
     (let w1 = w @ [ConsoleError ''Error processing event:'' err] in
      if replyToken event \<noteq> None \<and> lineClient E then
        (let w2 = w1 @ [ReplyMessage (replyToken event) failure_text] in
         case replyMessage E w2 of
           Inl replyErr \<Rightarrow>
             (Inr (), w2 @ [ConsoleError ''Failed to send error reply:'' (Thrown replyErr)])
         | Inr u \<Rightarrow> (Inr (), w2))
      else (Inr (), w1))"

definition handleEventSafely :: "env \<Rightarrow> event \<Rightarrow> world \<Rightarrow> (thrown + unit) \<times> world" where
  "handleEventSafely E event w =
     (case handleEvent_try E event w of
        (Inr u, w') \<Rightarrow> (Inr u, w')
      | (Inl err, w') \<Rightarrow> handleEvent_catch E event err w')"

text \<open>
  \<^verbatim>\<open>Promise.all(events.map(handleEventSafely))\<close>. Every promise of the batch runs to
  its end, whatever the others do; \<open>settle_all\<close> runs them one after the other, each
  on the world the one before left, and keeps the outcomes. \<open>Promise_all\<close> resolves
  when all of them did, and rejects with the first rejection otherwise.
\<close>

fun settle_all :: "env \<Rightarrow> event list \<Rightarrow> world \<Rightarrow> (thrown + unit) list \<times> world" where
  "settle_all E [] w = ([], w)"
| "settle_all E (ev # evs) w =
     (case handleEventSafely E ev w of
        (r, w') \<Rightarrow> (case settle_all E evs w' of (rs, w'') \<Rightarrow> (r # rs, w'')))"

fun Promise_all :: "('e + 'a) list \<Rightarrow> 'e + 'a list" where
  "Promise_all [] = Inr []"
| "Promise_all (Inl e # rs) = Inl e"
| "Promise_all (Inr v # rs) = (case Promise_all rs of Inl e \<Rightarrow> Inl e | Inr vs \<Rightarrow> Inr (v # vs))"

text \<open>
  \<^verbatim>\<open>handler(req, res)\<close> of \<^verbatim>\<open>api/webhook.ts\<close>, returning the status sent. \<open>events\<close>
  is \<^verbatim>\<open>req.body.events\<close>, \<^const>\<open>None\<close> when the body has no such array, in which case
  \<^verbatim>\<open>events.map\<close> throws inside the \<^verbatim>\<open>try\<close>.
\<close>

definition handler :: "env \<Rightarrow> string \<Rightarrow> event list option \<Rightarrow> world \<Rightarrow> nat \<times> world" where
  "handler E method events w =
     (if method \<noteq> ''POST'' then (405, w)
      else
        (case events of
           None \<Rightarrow> (500, w @ [ConsoleError ''Webhook error:'' (Thrown TypeError)])
         | Some evs \<Rightarrow>
             (case settle_all E evs w of
                (rs, w') \<Rightarrow>
                  (case Promise_all rs of
                     Inr us \<Rightarrow> (200, w')
                   | Inl err \<Rightarrow> (500, w' @ [ConsoleError ''Webhook error:'' err])))))"

section \<open>A concrete environment\<close>

text \<open>
  A test for URLs to run the examples with, standing for the one of zod: the text
  starts with \<open>https://\<close> and goes on.
\<close>

definition sample_is_url :: "string \<Rightarrow> bool" where
  "sample_is_url u = (take 8 u = ''https://'' \<and> 8 < length u)"

text \<open>
  An environment to run the program in. Every client is configured and every service
  succeeds. The language model answers each request with the text \<open>reply_text\<close>, the
  JSON object with the key \<open>k_tango\<close> bound to the empty string and the key \<open>k_imi\<close>
  bound to the array of the one string \<open>x\<close>; \<open>reply_json\<close> is what \<^verbatim>\<open>JSON.parse\<close>
  makes of it.
\<close>

definition reply_text :: string where
  "reply_text =
     [CHR ''{'', CHR 0x22, CHR 0xE5, CHR 0x8D, CHR 0x98, CHR 0xE8,
     CHR 0xAA, CHR 0x9E, CHR 0x22, CHR '':'', CHR 0x22, CHR 0x22,
     CHR '','', CHR 0x22, CHR 0xE6, CHR 0x84, CHR 0x8F, CHR 0xE5,
     CHR 0x91, CHR 0xB3, CHR 0x22, CHR '':'', CHR ''['', CHR 0x22,
     CHR ''x'', CHR 0x22, CHR '']'', CHR ''}'']"

definition reply_json :: json where
  "reply_json = JObj [(k_tango, JStr []), (k_imi, JArr [JStr ''x''])]"

definition reply_entry :: Entry where
  "reply_entry =
     \<lparr>tango = [], hatsuon = None, hinshi = None, imi = [''x''], gogen = None,
      collocation = None, reibun = None, CEFR = None, ruigigo = None, shutten_URL = None\<rparr>"

definition all_fine :: env where
  "all_fine =
     \<lparr>LINE_ACCESS_TOKEN = Some ''line-token'',
      NOTION_TOKEN = Some ''notion-token'',
      NOTION_DATABASE_ID = Some ''database-1'',
      OPENAI_MODEL = None,
      chat_completions_create = (\<lambda>w. Inr (Some reply_text)),
      JSON_parse = (\<lambda>t. if t = reply_text then Some reply_json else None),
      pages_create = (\<lambda>w. Inr ''page-1''),
      blocks_children_append = (\<lambda>w. Inr ()),
      replyMessage = (\<lambda>w. Inr ())\<rparr>"

text \<open>
  Variants of the environment: no token for the document database (the variable is not
  set, or set to the empty string), and a document database that refuses every page.
\<close>

definition no_notion :: env where
  "no_notion = all_fine\<lparr>NOTION_TOKEN := None\<rparr>"

definition empty_notion_token :: env where
  "empty_notion_token = all_fine\<lparr>NOTION_TOKEN := Some []\<rparr>"

definition notion_down :: env where
  "notion_down = all_fine\<lparr>pages_create := (\<lambda>w. Inl (External ''503''))\<rparr>"

text \<open>
  Entries to save: the word with one meaning and nothing else; the same with two
  examples, the first with a translation; and with two examples whose first
  translation is the empty string.
\<close>

definition ubiquitous :: Entry where
  "ubiquitous =
     \<lparr>tango = ''ubiquitous'', hatsuon = None, hinshi = None, imi = [''at or in all places''],
      gogen = None, collocation = None, reibun = None, CEFR = None, ruigigo = None,
      shutten_URL = None\<rparr>"

definition two_examples :: Entry where
  "two_examples =
     ubiquitous\<lparr>reibun := Some [\<lparr>ei = ''It is ubiquitous.'', nichi = Some ''It is everywhere.''\<rparr>,
                               \<lparr>ei = ''Ubiquitous computing.'', nichi = None\<rparr>]\<rparr>"

definition empty_translation :: Entry where
  "empty_translation =
     ubiquitous\<lparr>reibun := Some [\<lparr>ei = ''It is ubiquitous.'', nichi = Some []\<rparr>,
                               \<lparr>ei = ''Ubiquitous computing.'', nichi = None\<rparr>]\<rparr>"

text \<open>The candidate that \<^verbatim>\<open>Schema.parse\<close> turns into \<open>empty_translation\<close>.\<close>

definition empty_translation_json :: json where
  "empty_translation_json =
     JObj [(k_tango, JStr ''ubiquitous''), (k_imi, JArr [JStr ''at or in all places'']),
           (k_reibun, JArr [JObj [(k_ei, JStr ''It is ubiquitous.''), (k_nichi, JStr [])],
                            JObj [(k_ei, JStr ''Ubiquitous computing.'')]])]"

text \<open>An effect that is a call of \<^verbatim>\<open>blocks.children.append\<close>, and one that is a reply.\<close>

fun is_append :: "effect \<Rightarrow> bool" where
  "is_append (BlocksChildrenAppend page_id bs) = True"
| "is_append _ = False"

fun is_reply :: "effect \<Rightarrow> bool" where
  "is_reply (ReplyMessage tok t) = True"
| "is_reply _ = False"

text \<open>An effect that is the failure notice: a reply with the fixed failure text.\<close>

fun is_failure_notice :: "effect \<Rightarrow> bool" where
  "is_failure_notice (ReplyMessage tok t) = (t = failure_text)"
| "is_failure_notice _ = False"

text \<open>
  An environment where the document database refuses every page and the chat
  transport refuses every reply, and a text message event whose text is the word
  \<open>cat\<close> between spaces.
\<close>

definition all_down :: env where
  "all_down = notion_down\<lparr>replyMessage := (\<lambda>w. Inl (External ''429''))\<rparr>"

definition cat_event :: event where
  "cat_event = MessageEvent (Some ''token-1'') (TextMessage '' cat '')"

section \<open>Properties of the retry wrapper\<close>

lemmas key_defs =
  k_tango_def k_hatsuon_def k_hinshi_def k_imi_def k_gogen_def k_collocation_def
  k_reibun_def k_CEFR_def k_ruigigo_def k_shutten_URL_def k_ei_def k_nichi_def
  k_Vocabulary_def

declare retry_loop_int.simps [simp del]


lemma invocations_append: "invocations (a @ b) = invocations a + invocations b"
  by (simp add: invocations_def)

subsection \<open>Numbers of integers\<close>

lemma js_less_num: "js_less (num i) (num m) = (i < m)"
  by (simp add: num_def)

lemma js_strict_eq_num: "js_strict_eq (num i) (js_minus_one (num m)) = (i = m - 1)"
proof -
  have "((of_int i :: rat) = of_int m - 1) = ((of_int i :: rat) = of_int (m - 1))"
    by simp
  then show ?thesis
    by (simp only: num_def js_minus_one.simps js_strict_eq.simps of_int_eq_iff)
qed




subsection \<open>One turn of the loop, case by case\<close>

lemma retry_loop_exhausted:
  "\<not> js_less (num i) M \<Longrightarrow> retry_loop fn M i d w = Some (Inl RetryFailed, w)"
  by (subst retry_loop.simps) simp

lemma retry_loop_success:
  "js_less (num i) M \<Longrightarrow> fn w = (Inr v, w') \<Longrightarrow> retry_loop fn M i d w = Some (Inr v, w')"
  by (subst retry_loop.simps) simp

lemma retry_loop_last:
  "js_less (num i) M \<Longrightarrow> fn w = (Inl e, w') \<Longrightarrow> js_strict_eq (num i) (js_minus_one M) \<Longrightarrow>
   retry_loop fn M i d w = Some (Inl (Thrown e), w')"
  by (subst retry_loop.simps) simp

lemma retry_loop_again:
  "js_less (num i) M \<Longrightarrow> fn w = (Inl e, w') \<Longrightarrow> \<not> js_strict_eq (num i) (js_minus_one M) \<Longrightarrow>
   retry_loop fn M i d w =
     retry_loop fn M (i + 1) (js_double d) (w' @ [ConsoleWarn (i + 1) d e, Sleep d])"
  by (subst retry_loop.simps) simp

lemma retry_loop_int_exhausted: "\<not> i < m \<Longrightarrow> retry_loop_int fn m i d w = (Inl RetryFailed, w)"
  by (subst retry_loop_int.simps) simp

lemma retry_loop_int_success:
  "i < m \<Longrightarrow> fn w = (Inr v, w') \<Longrightarrow> retry_loop_int fn m i d w = (Inr v, w')"
  by (subst retry_loop_int.simps) simp

lemma retry_loop_int_last:
  "i < m \<Longrightarrow> fn w = (Inl e, w') \<Longrightarrow> i = m - 1 \<Longrightarrow> retry_loop_int fn m i d w = (Inl (Thrown e), w')"
  by (subst retry_loop_int.simps) simp

lemma retry_loop_int_again:
  "i < m \<Longrightarrow> fn w = (Inl e, w') \<Longrightarrow> i \<noteq> m - 1 \<Longrightarrow>
   retry_loop_int fn m i d w =
     retry_loop_int fn m (i + 1) (js_double d) (w' @ [ConsoleWarn (i + 1) d e, Sleep d])"
  by (subst retry_loop_int.simps) simp

subsection \<open>At an integer count the loop returns\<close>

text \<open>
  With \<open>maxRetries\<close> the number of an integer, \<^verbatim>\<open>retry\<close> returns, and what it returns is
  what the total loop computes.
\<close>

lemma retry_loop_int_agrees:
  "retry_loop fn (num m) i d w = Some (retry_loop_int fn m i d w)"
proof (induction fn m i d w rule: retry_loop_int.induct)
  case (1 fn maxRetries i delay w)
  show ?case
  proof (cases "i < maxRetries")
    case False
    then show ?thesis
      by (simp add: retry_loop_exhausted retry_loop_int_exhausted js_less_num)
  next
    case lt: True
    obtain r w' where fw: "fn w = (r, w')" by (cases "fn w")
    show ?thesis
    proof (cases r)
      case (Inr v)
      with fw lt show ?thesis
        by (simp add: retry_loop_success retry_loop_int_success js_less_num)
    next
      case (Inl err)
      show ?thesis
      proof (cases "i = maxRetries - 1")
        case True
        with fw Inl lt show ?thesis
          by (simp add: retry_loop_last retry_loop_int_last js_less_num js_strict_eq_num)
      next
        case False
        have "retry_loop fn (num maxRetries) i delay w =
            retry_loop fn (num maxRetries) (i + 1) (js_double delay)
              (w' @ [ConsoleWarn (i + 1) delay err, Sleep delay])"
          using fw Inl False lt by (simp add: retry_loop_again js_less_num js_strict_eq_num)
        moreover have "retry_loop_int fn maxRetries i delay w =
            retry_loop_int fn maxRetries (i + 1) (js_double delay)
              (w' @ [ConsoleWarn (i + 1) delay err, Sleep delay])"
          using fw Inl False lt by (simp add: retry_loop_int_again)
        ultimately show ?thesis
          using "1.IH" [OF lt fw [symmetric] Inl False] by simp
      qed
    qed
  qed
qed

lemma retry_int_agrees: "retry fn (num m) d w = Some (retry_int fn m d w)"
  by (simp add: retry_def retry_int_def retry_loop_int_agrees)

lemma retry_default_agrees: "retry fn (Finite 3) (Finite 1000) w = Some (retry_default fn w)"
  using retry_int_agrees [of fn 3 "Finite 1000" w] by (simp add: retry_default_def num_def)

text \<open>When the loop is entered, its outcome is the outcome of some invocation of \<open>fn\<close>.\<close>

lemma retry_loop_int_passed_on:
  "i < m \<Longrightarrow> \<exists>w1. retry_loop_int fn m i d w = passed_on (fn w1)"
proof (induction fn m i d w rule: retry_loop_int.induct)
  case (1 fn maxRetries i delay w)
  obtain r w' where fw: "fn w = (r, w')" by (cases "fn w")
  show ?case
  proof (cases r)
    case (Inr v)
    with fw "1.prems" have "retry_loop_int fn maxRetries i delay w = passed_on (fn w)"
      by (simp add: retry_loop_int_success passed_on_def)
    then show ?thesis by blast
  next
    case (Inl err)
    show ?thesis
    proof (cases "i = maxRetries - 1")
      case True
      with fw Inl "1.prems" have "retry_loop_int fn maxRetries i delay w = passed_on (fn w)"
        by (simp add: retry_loop_int_last passed_on_def)
      then show ?thesis by blast
    next
      case False
      with "1.prems" have lt: "i + 1 < maxRetries" by simp
      from "1.IH" [OF "1.prems" fw [symmetric] Inl False lt]
      obtain w1 where "retry_loop_int fn maxRetries (i + 1) (js_double delay)
          (w' @ [ConsoleWarn (i + 1) delay err, Sleep delay]) = passed_on (fn w1)"
        by blast
      moreover from fw Inl False "1.prems"
      have "retry_loop_int fn maxRetries i delay w = retry_loop_int fn maxRetries (i + 1) (js_double delay)
          (w' @ [ConsoleWarn (i + 1) delay err, Sleep delay])"
        by (simp add: retry_loop_int_again)
      ultimately show ?thesis by auto
    qed
  qed
qed

text \<open>
  The loop only adds effects to the world: those of \<open>fn\<close>, warnings and sleeps. So a
  property \<open>P\<close> of effects that holds of these holds of everything the loop adds.
\<close>

lemma retry_loop_int_extends:
  assumes fn: "\<And>w. \<exists>ext. snd (fn w) = w @ ext \<and> list_all P ext"
    and warn: "\<And>i d e. P (ConsoleWarn i d e)" and sleep: "\<And>d. P (Sleep d)"
  shows "\<exists>ext. snd (retry_loop_int fn m i d w) = w @ ext \<and> list_all P ext"
  using fn
proof (induction fn m i d w rule: retry_loop_int.induct)
  case (1 fn maxRetries i delay w)
  note fn = "1.prems"
  show ?case
  proof (cases "i < maxRetries")
    case False
    then show ?thesis by (simp add: retry_loop_int_exhausted)
  next
    case lt: True
    obtain r w' where fw: "fn w = (r, w')" by (cases "fn w")
    from fn [of w] fw obtain ext where ext: "w' = w @ ext" "list_all P ext" by auto
    show ?thesis
    proof (cases r)
      case (Inr v)
      with fw lt ext show ?thesis by (simp add: retry_loop_int_success)
    next
      case (Inl err)
      show ?thesis
      proof (cases "i = maxRetries - 1")
        case True
        with fw Inl lt ext show ?thesis by (simp add: retry_loop_int_last)
      next
        case False
        from "1.IH" [OF lt fw [symmetric] Inl False fn]
        obtain ext' where ext': "snd (retry_loop_int fn maxRetries (i + 1) (js_double delay)
            (w' @ [ConsoleWarn (i + 1) delay err, Sleep delay])) =
            (w' @ [ConsoleWarn (i + 1) delay err, Sleep delay]) @ ext'" "list_all P ext'"
          by blast
        have "retry_loop_int fn maxRetries i delay w = retry_loop_int fn maxRetries (i + 1) (js_double delay)
            (w' @ [ConsoleWarn (i + 1) delay err, Sleep delay])"
          using fw Inl False lt by (simp add: retry_loop_int_again)
        with ext ext' warn sleep show ?thesis by simp
      qed
    qed
  qed
qed

subsection \<open>Runs of an instrumented operation\<close>






subsection \<open>The claims about the wrapper\<close>








section \<open>Properties of the schema\<close>

lemma accepted_simps [simp]: "accepted None = False" "accepted (Some x) = True"
  by (simp_all add: accepted_def)

lemma accepted_bind: "accepted (Option.bind a f) = (accepted a \<and> accepted (f (the a)))"
  by (cases a) simp_all

lemma accepted_map_option [simp]: "accepted (map_option f r) = accepted r"
  by (cases r) simp_all

lemma z_string_accepted: "accepted (z_string j) = is_string j"
  by (cases j) simp_all

lemma those_map_accepted: "accepted (those (map p xs)) = list_all (\<lambda>x. accepted (p x)) xs"
  by (induction xs) (auto split: option.splits)

lemma those_map_length: "those (map p xs) = Some ys \<Longrightarrow> length ys = length xs"
  by (induction xs arbitrary: ys) (auto split: option.splits)

lemma z_array_accepted:
  assumes "\<And>x. accepted (p x) = P x"
  shows "accepted (z_array p j) = is_array_of P j"
  using assms by (cases j) (simp_all add: those_map_accepted)

lemma z_array_length: "z_array p j = Some ys \<Longrightarrow> length ys = array_length j"
  by (cases j) (simp_all add: those_map_length)

lemma z_min_accepted:
  "accepted (z_min lo (z_array p j)) = (accepted (z_array p j) \<and> lo \<le> array_length j)"
  by (cases "z_array p j") (auto simp: z_min_def dest: z_array_length)

lemma z_max_min_accepted:
  "accepted (z_max hi (z_min lo (z_array p j))) =
     (accepted (z_array p j) \<and> lo \<le> array_length j \<and> array_length j \<le> hi)"
  by (cases "z_array p j") (auto simp: z_min_def z_max_def dest: z_array_length)

lemma z_required_accepted:
  assumes "\<And>x. accepted (p x) = P x"
  shows "accepted (z_required p v) = present_and P v"
  using assms by (cases v) (simp_all add: z_required_def present_and_def)

lemma z_optional_accepted:
  assumes "\<And>x. accepted (p x) = P x"
  shows "accepted (z_optional p v) = absent_or P v"
  using assms by (cases v) (simp_all add: z_optional_def absent_or_def accepted_def)

lemma z_example_accepted: "accepted (z_example j) = is_example j"
  by (cases j)
    (simp_all add: accepted_bind z_required_accepted [of z_string is_string]
      z_optional_accepted [of z_string is_string] z_string_accepted)

lemma string_array_accepted: "accepted (z_array z_string j) = is_array_of is_string j"
  by (rule z_array_accepted) (rule z_string_accepted)

lemma example_array_accepted: "accepted (z_array z_example j) = is_array_of is_example j"
  by (rule z_array_accepted) (rule z_example_accepted)

lemma imi_accepted:
  "accepted (z_required (\<lambda>j. z_min lo (z_array z_string j)) v) =
     present_and (\<lambda>j. is_array_of is_string j \<and> lo \<le> array_length j) v"
  by (rule z_required_accepted) (simp add: z_min_accepted string_array_accepted)

lemma reibun_accepted:
  "accepted (z_optional (\<lambda>j. z_max hi (z_min lo (z_array z_example j))) v) =
     absent_or (\<lambda>j. is_array_of is_example j \<and> lo \<le> array_length j \<and> array_length j \<le> hi) v"
  by (rule z_optional_accepted) (simp add: z_max_min_accepted example_array_accepted)

lemma z_object_accepted:
  "accepted (z_object z_string c) = matches_schema_with is_string is_string c"
  by (cases c)
    (simp_all add: accepted_bind
      z_required_accepted [of z_string is_string]
      z_optional_accepted [of z_string is_string]
      z_optional_accepted [of "z_array z_string" "is_array_of is_string"]
      imi_accepted reibun_accepted
      z_string_accepted string_array_accepted)

lemma Schema_parse_cases:
  "Schema_parse c =
     (if matches_schema_with is_string is_string c then Inr (the (z_object z_string c))
      else Inl ZodError)"
  using z_object_accepted [of c]
  by (cases "z_object z_string c") (simp_all add: Schema_parse_def parse_def)

text \<open>
  The data model asks more of the word and of the source URL than that they are
  strings; where the source URL is in order it asks no more of it.
\<close>

lemma present_and_mono: "(\<And>j. P j \<Longrightarrow> Q j) \<Longrightarrow> present_and P v \<Longrightarrow> present_and Q v"
  by (cases v) (simp_all add: present_and_def)

lemma absent_or_mono: "(\<And>j. P j \<Longrightarrow> Q j) \<Longrightarrow> absent_or P v \<Longrightarrow> absent_or Q v"
  by (cases v) (simp_all add: absent_or_def)

lemma is_nonempty_string_is_string: "is_nonempty_string j \<Longrightarrow> is_string j"
  by (cases j) simp_all

lemma is_url_string_is_string: "is_url_string is_url j \<Longrightarrow> is_string j"
  by (cases j) simp_all

lemma matches_schema_declared:
  assumes "matches_schema is_url c"
  shows "matches_schema_with is_string is_string c"
proof (cases c)
  case (JObj kvs)
  with assms show ?thesis
    by (auto simp: matches_schema_def
        intro: present_and_mono [of is_nonempty_string is_string]
          absent_or_mono [of "is_url_string is_url" is_string]
          is_nonempty_string_is_string is_url_string_is_string)
qed (use assms in \<open>simp_all add: matches_schema_def\<close>)

lemma source_URL_in_order_declared:
  assumes "source_URL_in_order is_url c"
  shows "matches_schema_any_word is_url c = matches_schema_with is_string is_string c"
proof (cases c)
  case (JObj kvs)
  have "absent_or (is_url_string is_url) (map_of kvs k_shutten_URL) =
      absent_or is_string (map_of kvs k_shutten_URL)"
  proof (cases "map_of kvs k_shutten_URL")
    case None
    then show ?thesis by (simp add: absent_or_def)
  next
    case (Some j)
    with assms JObj show ?thesis
      by (cases j) (simp_all add: absent_or_def)
  qed
  with JObj show ?thesis
    by (simp add: matches_schema_any_word_def)
qed (simp_all add: matches_schema_any_word_def)

lemma z_optional_absent: "z_optional p None = Some None"
  by (simp add: z_optional_def)

lemma z_object_absent:
  assumes "z_object url (JObj kvs) = Some e"
  shows "(map_of kvs k_hatsuon = None \<longrightarrow> hatsuon e = None) \<and>
         (map_of kvs k_hinshi = None \<longrightarrow> hinshi e = None) \<and>
         (map_of kvs k_gogen = None \<longrightarrow> gogen e = None) \<and>
         (map_of kvs k_collocation = None \<longrightarrow> collocation e = None) \<and>
         (map_of kvs k_reibun = None \<longrightarrow> reibun e = None) \<and>
         (map_of kvs k_CEFR = None \<longrightarrow> CEFR e = None) \<and>
         (map_of kvs k_ruigigo = None \<longrightarrow> ruigigo e = None) \<and>
         (map_of kvs k_shutten_URL = None \<longrightarrow> shutten_URL e = None)"
  using assms by (auto simp: bind_eq_Some_conv z_optional_absent)

lemma z_object_bounds:
  assumes "z_object url j = Some e"
  shows "imi e \<noteq> [] \<and> (case reibun e of None \<Rightarrow> True | Some xs \<Rightarrow> 1 \<le> length xs \<and> length xs \<le> 3)"
proof (cases j)
  case (JObj kvs)
  with assms obtain m r where
    m: "z_required (\<lambda>j. z_min 1 (z_array z_string j)) (map_of kvs k_imi) = Some m"
    and r: "z_optional (\<lambda>j. z_max 3 (z_min 1 (z_array z_example j))) (map_of kvs k_reibun) = Some r"
    and e: "imi e = m" "reibun e = r"
    by (auto simp: bind_eq_Some_conv)
  from m have "m \<noteq> []"
    by (auto simp: z_required_def z_min_def split: option.splits if_splits)
  moreover from r have "case r of None \<Rightarrow> True | Some xs \<Rightarrow> 1 \<le> length xs \<and> length xs \<le> 3"
    by (auto simp: z_optional_def z_min_def z_max_def split: option.splits if_splits)
  ultimately show ?thesis using e by simp
qed (use assms in simp_all)

lemma parse_Inr: "(parse schema c = Inr e) = (schema c = Some e)"
  by (simp add: parse_def split: option.splits)

text \<open>
  Claim C5, amended. For every candidate whose source URL is in order (missing, or a
  valid URL), \<^verbatim>\<open>Schema.parse\<close> succeeds exactly when the candidate matches the
  declared schema but for the word, which may be empty. It succeeds on every candidate
  that matches the declared schema, and where it does not succeed it throws a
  ZodError. When it succeeds on an object, every optional field whose key the object
  does not have is absent in the Entry. It fails on every object whose key \<open>k_imi\<close> is
  missing or bound to the empty array, and on every object whose key \<open>k_reibun\<close> is
  bound to an array of more than 3 items.
\<close>

theorem Schema_parse_conforms:
  "(source_URL_in_order is_url c \<longrightarrow>
      ((\<exists>e. Schema_parse c = Inr e) \<longleftrightarrow> matches_schema_any_word is_url c)) \<and>
   (matches_schema is_url c \<longrightarrow> (\<exists>e. Schema_parse c = Inr e)) \<and>
   ((\<forall>e. Schema_parse c \<noteq> Inr e) \<longrightarrow> Schema_parse c = Inl ZodError) \<and>
   (Schema_parse (JObj kvs) = Inr e \<longrightarrow>
      (map_of kvs k_hatsuon = None \<longrightarrow> hatsuon e = None) \<and>
      (map_of kvs k_hinshi = None \<longrightarrow> hinshi e = None) \<and>
      (map_of kvs k_gogen = None \<longrightarrow> gogen e = None) \<and>
      (map_of kvs k_collocation = None \<longrightarrow> collocation e = None) \<and>
      (map_of kvs k_reibun = None \<longrightarrow> reibun e = None) \<and>
      (map_of kvs k_CEFR = None \<longrightarrow> CEFR e = None) \<and>
      (map_of kvs k_ruigigo = None \<longrightarrow> ruigigo e = None) \<and>
      (map_of kvs k_shutten_URL = None \<longrightarrow> shutten_URL e = None)) \<and>
   (map_of kvs k_imi = None \<longrightarrow> Schema_parse (JObj kvs) = Inl ZodError) \<and>
   (map_of kvs k_imi = Some (JArr []) \<longrightarrow> Schema_parse (JObj kvs) = Inl ZodError) \<and>
   (map_of kvs k_reibun = Some (JArr xs) \<and> 3 < length xs \<longrightarrow>
      Schema_parse (JObj kvs) = Inl ZodError)"
proof (intro conjI)
  show "source_URL_in_order is_url c \<longrightarrow>
      ((\<exists>e. Schema_parse c = Inr e) \<longleftrightarrow> matches_schema_any_word is_url c)"
    by (simp add: Schema_parse_cases source_URL_in_order_declared)
  show "matches_schema is_url c \<longrightarrow> (\<exists>e. Schema_parse c = Inr e)"
    by (simp add: Schema_parse_cases matches_schema_declared)
  show "(\<forall>e. Schema_parse c \<noteq> Inr e) \<longrightarrow> Schema_parse c = Inl ZodError"
    by (simp add: Schema_parse_cases)
  show "Schema_parse (JObj kvs) = Inr e \<longrightarrow>
      (map_of kvs k_hatsuon = None \<longrightarrow> hatsuon e = None) \<and>
      (map_of kvs k_hinshi = None \<longrightarrow> hinshi e = None) \<and>
      (map_of kvs k_gogen = None \<longrightarrow> gogen e = None) \<and>
      (map_of kvs k_collocation = None \<longrightarrow> collocation e = None) \<and>
      (map_of kvs k_reibun = None \<longrightarrow> reibun e = None) \<and>
      (map_of kvs k_CEFR = None \<longrightarrow> CEFR e = None) \<and>
      (map_of kvs k_ruigigo = None \<longrightarrow> ruigigo e = None) \<and>
      (map_of kvs k_shutten_URL = None \<longrightarrow> shutten_URL e = None)"
    unfolding Schema_parse_def parse_Inr by (rule impI) (rule z_object_absent)
  show "map_of kvs k_imi = None \<longrightarrow> Schema_parse (JObj kvs) = Inl ZodError"
    by (simp add: Schema_parse_cases present_and_def)
  show "map_of kvs k_imi = Some (JArr []) \<longrightarrow> Schema_parse (JObj kvs) = Inl ZodError"
    by (simp add: Schema_parse_cases present_and_def)
  show "map_of kvs k_reibun = Some (JArr xs) \<and> 3 < length xs \<longrightarrow>
      Schema_parse (JObj kvs) = Inl ZodError"
    by (simp add: Schema_parse_cases absent_or_def)
qed

text \<open>
  The candidate with the word and one meaning only matches the declared schema and is
  parsed with every optional field absent, and so is the one that has a valid source
  URL as well; without the meanings, with no meaning and with four examples the parse
  fails.
\<close>

theorem Schema_parse_conforms_witness:
  "source_URL_in_order sample_is_url
     (JObj [(k_tango, JStr ''ubiquitous''), (k_imi, JArr [JStr ''at or in all places''])]) \<and>
   matches_schema sample_is_url
     (JObj [(k_tango, JStr ''ubiquitous''), (k_imi, JArr [JStr ''at or in all places''])]) \<and>
   Schema_parse (JObj [(k_tango, JStr ''ubiquitous''), (k_imi, JArr [JStr ''at or in all places''])]) =
     Inr \<lparr>tango = ''ubiquitous'', hatsuon = None, hinshi = None, imi = [''at or in all places''],
          gogen = None, collocation = None, reibun = None, CEFR = None, ruigigo = None,
          shutten_URL = None\<rparr> \<and>
   matches_schema sample_is_url
     (JObj [(k_tango, JStr ''ubiquitous''), (k_imi, JArr [JStr ''at or in all places'']),
            (k_shutten_URL, JStr ''https://example.org/ubiquitous'')]) \<and>
   (\<exists>e. Schema_parse
      (JObj [(k_tango, JStr ''ubiquitous''), (k_imi, JArr [JStr ''at or in all places'']),
             (k_shutten_URL, JStr ''https://example.org/ubiquitous'')]) = Inr e) \<and>
   Schema_parse (JObj [(k_tango, JStr ''ubiquitous'')]) = Inl ZodError \<and>
   Schema_parse (JObj [(k_tango, JStr ''ubiquitous''), (k_imi, JArr [])]) = Inl ZodError \<and>
   Schema_parse (JObj [(k_tango, JStr ''ubiquitous''), (k_imi, JArr [JStr ''at or in all places'']),
     (k_reibun, JArr [JObj [(k_ei, JStr ''a'')], JObj [(k_ei, JStr ''b'')],
                      JObj [(k_ei, JStr ''c'')], JObj [(k_ei, JStr ''d'')]])]) = Inl ZodError"
proof -
  let ?ok = "[(k_tango, JStr ''ubiquitous''), (k_imi, JArr [JStr ''at or in all places''])]"
  let ?url = "?ok @ [(k_shutten_URL, JStr ''https://example.org/ubiquitous'')]"
  let ?four = "[JObj [(k_ei, JStr ''a'')], JObj [(k_ei, JStr ''b'')],
                JObj [(k_ei, JStr ''c'')], JObj [(k_ei, JStr ''d'')]]"
  have o: "source_URL_in_order sample_is_url (JObj ?ok)"
    by (simp add: key_defs)
  have ok: "matches_schema sample_is_url (JObj ?ok)"
    by (simp add: matches_schema_def key_defs present_and_def absent_or_def)
  have u: "matches_schema sample_is_url (JObj ?url)"
    by (simp add: matches_schema_def key_defs present_and_def absent_or_def sample_is_url_def)
  have 1: "Schema_parse (JObj ?ok) =
     Inr \<lparr>tango = ''ubiquitous'', hatsuon = None, hinshi = None, imi = [''at or in all places''],
          gogen = None, collocation = None, reibun = None, CEFR = None, ruigigo = None,
          shutten_URL = None\<rparr>"
    by (simp add: Schema_parse_def parse_def key_defs z_required_def z_optional_def z_min_def)
  have 5: "\<exists>e. Schema_parse (JObj ?url) = Inr e"
    using Schema_parse_conforms [of sample_is_url "JObj ?url"] u by blast
  have 2: "Schema_parse (JObj [(k_tango, JStr ''ubiquitous'')]) = Inl ZodError"
    using Schema_parse_conforms [of sample_is_url "JObj ?ok" "[(k_tango, JStr ''ubiquitous'')]"]
    by (simp add: key_defs)
  have 3: "Schema_parse (JObj [(k_tango, JStr ''ubiquitous''), (k_imi, JArr [])]) = Inl ZodError"
    using Schema_parse_conforms [of sample_is_url "JObj ?ok"
        "[(k_tango, JStr ''ubiquitous''), (k_imi, JArr [])]"]
    by (simp add: key_defs)
  have 4: "Schema_parse (JObj (?ok @ [(k_reibun, JArr ?four)])) = Inl ZodError"
    using Schema_parse_conforms [of sample_is_url "JObj ?ok" "?ok @ [(k_reibun, JArr ?four)]" _ ?four]
    by (simp add: key_defs)
  from o ok u 1 2 3 4 5 show ?thesis by simp
qed

text \<open>
  Claim C5 as it is written fails: \<^verbatim>\<open>Schema.parse\<close> succeeds on the candidate
  \<open>reply_json\<close>, which has no source URL and whose word is the empty string, so it
  does not match the declared schema.
\<close>

theorem Schema_parse_accepts_empty_word:
  "Schema_parse reply_json = Inr reply_entry \<and>
   tango reply_entry = [] \<and>
   \<not> matches_schema sample_is_url reply_json"
  by (simp add: Schema_parse_def parse_def reply_json_def reply_entry_def key_defs
      z_required_def z_optional_def z_min_def matches_schema_def present_and_def)

subsection \<open>The source URL\<close>

text \<open>
  Claim C2. A candidate whose source URL is present and is not a valid URL should be
  rejected. The schema of \<^verbatim>\<open>api/webhook.ts\<close> has no \<^verbatim>\<open>.url()\<close> on this field: here
  it parses the candidate whose source URL is the text \<open>not a url\<close> and returns the
  Entry with that text as its source URL.
\<close>

theorem webhook_schema_accepts_invalid_url:
  "Schema_parse (JObj [(k_tango, JStr ''cat''), (k_imi, JArr [JStr ''a small animal'']),
                       (k_shutten_URL, JStr ''not a url'')]) =
     Inr \<lparr>tango = ''cat'', hatsuon = None, hinshi = None, imi = [''a small animal''],
          gogen = None, collocation = None, reibun = None, CEFR = None, ruigigo = None,
          shutten_URL = Some ''not a url''\<rparr>"
  by (simp add: Schema_parse_def parse_def key_defs z_required_def z_optional_def z_min_def)

text \<open>
  The schema of \<^verbatim>\<open>dist/server.js\<close> does reject such a candidate, whatever zod takes
  for a URL: the value under the key is not a string, or a string that is not a URL.
\<close>

lemma dist_schema_rejects_invalid_url:
  assumes "map_of kvs k_shutten_URL = Some j" and "\<forall>u. j = JStr u \<longrightarrow> \<not> is_url u"
  shows "Schema_parse_dist is_url (JObj kvs) = Inl ZodError"
proof -
  from assms have "z_optional (z_url is_url) (map_of kvs k_shutten_URL) = None"
    by (cases j) (simp_all add: z_optional_def z_url_def)
  then have "z_object (z_url is_url) (JObj kvs) = None"
    by (simp add: bind_eq_None_conv)
  then show ?thesis by (simp add: Schema_parse_dist_def parse_def)
qed

section \<open>Properties of the entry builder\<close>

lemma Schema_parse_bounds:
  "Schema_parse j = Inr e \<Longrightarrow>
   imi e \<noteq> [] \<and> (case reibun e of None \<Rightarrow> True | Some xs \<Rightarrow> 1 \<le> length xs \<and> length xs \<le> 3)"
  unfolding Schema_parse_def parse_Inr by (rule z_object_bounds)

lemma buildEntry_attempt_Inr:
  assumes "buildEntry_attempt E word w1 = (Inr e, w')"
  shows "\<exists>text j. chat_completions_create E (w1 @ [ChatCompletionsCreate (model_name E) word]) = Inr (Some text)
           \<and> JSON_parse E text = Some j \<and> Schema_parse j = Inr e"
  using assms
  by (auto simp: buildEntry_attempt_def Let_def truthy_def split: sum.splits option.splits if_splits)

text \<open>
  Claim C1, amended. Every Entry that \<^verbatim>\<open>buildEntry(word)\<close> returns is the parse, by
  \<^verbatim>\<open>Schema.parse\<close>, of the JSON text with which the language model answered a request
  for \<open>word\<close>. So its meanings are not empty and its examples, when present, are 1 to
  3 items; its word is the string of the answer, which nothing compares with \<open>word\<close>.
\<close>

theorem buildEntry_returns_parsed_reply:
  "buildEntry E word w = (Inr e, w') \<longrightarrow>
     (\<exists>w1 text j.
        chat_completions_create E (w1 @ [ChatCompletionsCreate (model_name E) word]) = Inr (Some text) \<and>
        JSON_parse E text = Some j \<and> Schema_parse j = Inr e) \<and>
     imi e \<noteq> [] \<and>
     (case reibun e of None \<Rightarrow> True | Some xs \<Rightarrow> 1 \<le> length xs \<and> length xs \<le> 3)"
proof
  assume b: "buildEntry E word w = (Inr e, w')"
  have "\<exists>w1. retry_loop_int (buildEntry_attempt E word) 3 0 (Finite 1000) w =
      passed_on (buildEntry_attempt E word w1)"
    by (rule retry_loop_int_passed_on) simp
  then obtain w1 where "retry_loop_int (buildEntry_attempt E word) 3 0 (Finite 1000) w =
      passed_on (buildEntry_attempt E word w1)" ..
  with b have "passed_on (buildEntry_attempt E word w1) = (Inr e, w')"
    by (simp add: buildEntry_def retry_default_def retry_int_def)
  then have a: "buildEntry_attempt E word w1 = (Inr e, w')"
    by (cases "buildEntry_attempt E word w1") (auto simp: passed_on_def split: sum.splits)
  from buildEntry_attempt_Inr [OF a] obtain reply j where
    tj: "chat_completions_create E (w1 @ [ChatCompletionsCreate (model_name E) word]) = Inr (Some reply)"
      "JSON_parse E reply = Some j" "Schema_parse j = Inr e"
    by blast
  with Schema_parse_bounds [OF tj(3)]
  show "(\<exists>w1 text j.
        chat_completions_create E (w1 @ [ChatCompletionsCreate (model_name E) word]) = Inr (Some text) \<and>
        JSON_parse E text = Some j \<and> Schema_parse j = Inr e) \<and>
     imi e \<noteq> [] \<and>
     (case reibun e of None \<Rightarrow> True | Some xs \<Rightarrow> 1 \<le> length xs \<and> length xs \<le> 3)"
    by blast
qed

text \<open>In the environment \<open>all_fine\<close> the builder returns \<open>reply_entry\<close> for every word.\<close>

lemma Schema_parse_reply: "Schema_parse reply_json = Inr reply_entry"
  by (simp add: Schema_parse_def parse_def reply_json_def reply_entry_def key_defs
      z_required_def z_optional_def z_min_def)

lemma buildEntry_all_fine:
  "buildEntry all_fine word w = (Inr reply_entry, w @ [ChatCompletionsCreate ''gpt-4o-mini'' word])"
proof -
  have "reply_text \<noteq> []" by (simp add: reply_text_def)
  then have "buildEntry_attempt all_fine word w =
      (Inr reply_entry, w @ [ChatCompletionsCreate ''gpt-4o-mini'' word])"
    by (simp add: buildEntry_attempt_def all_fine_def model_name_def truthy_def Schema_parse_reply)
  then show ?thesis
    by (simp add: buildEntry_def retry_default_def retry_int_def retry_loop_int_success)
qed

theorem buildEntry_returns_parsed_reply_witness:
  "buildEntry all_fine ''cat'' [] = (Inr reply_entry, [ChatCompletionsCreate ''gpt-4o-mini'' ''cat'']) \<and>
   (\<exists>w1 text j.
      chat_completions_create all_fine (w1 @ [ChatCompletionsCreate (model_name all_fine) ''cat'']) =
        Inr (Some text) \<and>
      JSON_parse all_fine text = Some j \<and> Schema_parse j = Inr reply_entry) \<and>
   imi reply_entry \<noteq> []"
  using buildEntry_returns_parsed_reply [of all_fine "''cat''" "[]" reply_entry
      "[ChatCompletionsCreate ''gpt-4o-mini'' ''cat'']"]
    buildEntry_all_fine [of "''cat''" "[]"]
  by simp

text \<open>
  Claim C1 as it is written fails: asked about the word \<open>cat\<close>, the builder returns
  an Entry whose word is empty, and so is not the word asked about.
\<close>

theorem buildEntry_word_not_checked:
  "fst (buildEntry all_fine ''cat'' []) = Inr reply_entry \<and>
   tango reply_entry = [] \<and> tango reply_entry \<noteq> ''cat''"
  using buildEntry_all_fine [of "''cat''" "[]"] by (simp add: reply_entry_def)


section \<open>Properties of the persistence adapter\<close>

text \<open>The world after the loop starts with the world after the first invocation.\<close>

lemma retry_loop_int_first:
  assumes "i < m" and fn: "\<And>w. \<exists>ext. snd (fn w) = w @ ext"
  shows "\<exists>rest. snd (retry_loop_int fn m i d w) = snd (fn w) @ rest"
proof -
  obtain r w' where fw: "fn w = (r, w')" by (cases "fn w")
  show ?thesis
  proof (cases r)
    case (Inr v)
    with fw assms(1) show ?thesis by (simp add: retry_loop_int_success)
  next
    case (Inl err)
    show ?thesis
    proof (cases "i = m - 1")
      case True
      with fw Inl assms(1) show ?thesis by (simp add: retry_loop_int_last)
    next
      case False
      have "\<exists>ext. snd (retry_loop_int fn m (i + 1) (js_double d) (w' @ [ConsoleWarn (i + 1) d err, Sleep d])) =
          (w' @ [ConsoleWarn (i + 1) d err, Sleep d]) @ ext \<and> list_all (\<lambda>x. True) ext"
      proof (rule retry_loop_int_extends)
        show "\<exists>ext. snd (fn w) = w @ ext \<and> list_all (\<lambda>x. True) ext" for w
          using fn [of w] by (auto simp: list_all_iff)
      qed simp_all
      then show ?thesis
        using fw Inl False assms(1) by (auto simp: retry_loop_int_again)
    qed
  qed
qed

text \<open>
  What one attempt adds to the world: the page creation and, when it succeeded and
  there are examples, the block append.
\<close>

lemma saveToNotion_attempt_world:
  "snd (saveToNotion_attempt E e w) =
     w @ PagesCreate (NOTION_DATABASE_ID E) (page_props e) #
       (case pages_create E (w @ [PagesCreate (NOTION_DATABASE_ID E) (page_props e)]) of
          Inl err \<Rightarrow> []
        | Inr page_id \<Rightarrow>
            if has_examples e then [BlocksChildrenAppend page_id (map example_block (the (reibun e)))]
            else [])"
  by (simp add: saveToNotion_attempt_def Let_def split: sum.splits)

lemma saveToNotion_first:
  assumes "notion E"
  shows "\<exists>rest. snd (saveToNotion E e w) =
           w @ PagesCreate (NOTION_DATABASE_ID E) (page_props e) #
             (case pages_create E (w @ [PagesCreate (NOTION_DATABASE_ID E) (page_props e)]) of
                Inl err \<Rightarrow> []
              | Inr page_id \<Rightarrow>
                  if has_examples e
                  then [BlocksChildrenAppend page_id (map example_block (the (reibun e)))]
                  else []) @ rest"
proof -
  have "\<exists>rest. snd (retry_loop_int (saveToNotion_attempt E e) 3 0 (Finite 1000) w) =
      snd (saveToNotion_attempt E e w) @ rest"
    by (rule retry_loop_int_first) (simp_all add: saveToNotion_attempt_world)
  with assms show ?thesis
    by (simp add: saveToNotion_def retry_default_def retry_int_def saveToNotion_attempt_world)
qed

lemma saveToNotion_appends:
  "\<exists>ext. snd (saveToNotion E e w) = w @ ext \<and>
     list_all (\<lambda>x. is_append x \<longrightarrow>
        has_examples e \<and> (\<exists>page_id. x = BlocksChildrenAppend page_id (map example_block (the (reibun e)))))
       ext"
proof (cases "notion E")
  case False
  then show ?thesis by (simp add: saveToNotion_def)
next
  case True
  have "\<exists>ext. snd (retry_loop_int (saveToNotion_attempt E e) 3 0 (Finite 1000) w) = w @ ext \<and>
     list_all (\<lambda>x. is_append x \<longrightarrow>
        has_examples e \<and> (\<exists>page_id. x = BlocksChildrenAppend page_id (map example_block (the (reibun e)))))
       ext"
    by (rule retry_loop_int_extends) (simp_all add: saveToNotion_attempt_world split: sum.splits)
  with True show ?thesis
    by (simp add: saveToNotion_def retry_default_def retry_int_def)
qed

text \<open>
  Claim C6. When the client of the document database was never configured,
  \<^verbatim>\<open>saveToNotion\<close> throws the ``not initialized'' error at once. The world is left as
  it was: no attempt, no warning, no sleep, no page creation and no block append; and
  the error is not one the retry wrapper threw.
\<close>

theorem saveToNotion_not_initialized:
  "\<not> notion E \<longrightarrow>
     saveToNotion E e w = (Inl (Thrown (Error ''Notion client not initialized'')), w)"
  by (simp add: saveToNotion_def)

text \<open>With the token not set and with the token set to the empty string.\<close>

theorem saveToNotion_not_initialized_witness:
  "\<not> notion no_notion \<and>
   saveToNotion no_notion ubiquitous [] =
     (Inl (Thrown (Error ''Notion client not initialized'')), []) \<and>
   \<not> notion empty_notion_token \<and>
   saveToNotion empty_notion_token two_examples [] =
     (Inl (Thrown (Error ''Notion client not initialized'')), [])"
proof -
  have 1: "\<not> notion no_notion" and 2: "\<not> notion empty_notion_token"
    by (simp_all add: notion_def no_notion_def empty_notion_token_def all_fine_def truthy_def)
  from 1 2 saveToNotion_not_initialized [of no_notion ubiquitous "[]"]
    saveToNotion_not_initialized [of empty_notion_token two_examples "[]"]
  show ?thesis by simp
qed

text \<open>
  Claim C4. For the Entry \<open>ubiquitous\<close>, the properties built have the title with the
  text \<open>ubiquitous\<close>, the meanings with the one text made of the bullet marker and
  \<open>at or in all places\<close>, and every other property \<^verbatim>\<open>undefined\<close>; what is sent holds
  the title and the meanings and no other property, in \<^verbatim>\<open>api/webhook.ts\<close> and in
  \<^verbatim>\<open>dist/server.js\<close>. With a configured client this payload is the first thing
  \<^verbatim>\<open>saveToNotion\<close> sends.
\<close>

theorem ubiquitous_payload:
  "page_props ubiquitous =
     [(k_Vocabulary, Some (Title [''ubiquitous''])), (k_hatsuon, None), (k_hinshi, None),
      (k_imi, Some (RichText [bullet @ ''at or in all places''])), (k_gogen, None),
      (k_collocation, None), (k_CEFR, None), (k_ruigigo, None), (k_shutten_URL, None)] \<and>
   sent_props (page_props ubiquitous) =
     [(k_Vocabulary, Title [''ubiquitous'']), (k_imi, RichText [bullet @ ''at or in all places''])] \<and>
   sent_props (page_props_dist ubiquitous) =
     [(k_tango, Title [''ubiquitous'']), (k_imi, RichText [bullet @ ''at or in all places''])] \<and>
   (notion E \<longrightarrow>
      (\<exists>rest. snd (saveToNotion E ubiquitous w) =
         w @ PagesCreate (NOTION_DATABASE_ID E) (page_props ubiquitous) # rest))"
proof (intro conjI impI)
  show "page_props ubiquitous =
     [(k_Vocabulary, Some (Title [''ubiquitous''])), (k_hatsuon, None), (k_hinshi, None),
      (k_imi, Some (RichText [bullet @ ''at or in all places''])), (k_gogen, None),
      (k_collocation, None), (k_CEFR, None), (k_ruigigo, None), (k_shutten_URL, None)]"
    by (simp add: page_props_def props_with_def ubiquitous_def if_truthy_def if_array_def truthy_def)
  then show "sent_props (page_props ubiquitous) =
     [(k_Vocabulary, Title [''ubiquitous'']), (k_imi, RichText [bullet @ ''at or in all places''])]"
    by simp
  show "sent_props (page_props_dist ubiquitous) =
     [(k_tango, Title [''ubiquitous'']), (k_imi, RichText [bullet @ ''at or in all places''])]"
    by (simp add: page_props_dist_def props_with_def ubiquitous_def if_truthy_def if_array_def truthy_def)
  assume "notion E"
  from saveToNotion_first [OF this, of ubiquitous w]
  show "\<exists>rest. snd (saveToNotion E ubiquitous w) =
         w @ PagesCreate (NOTION_DATABASE_ID E) (page_props ubiquitous) # rest"
    by auto
qed

text \<open>Saving in the environment \<open>all_fine\<close> takes one attempt.\<close>

lemma saveToNotion_all_fine:
  "saveToNotion all_fine e w =
     (Inr (), w @ PagesCreate (Some ''database-1'') (page_props e) #
        (if has_examples e then [BlocksChildrenAppend ''page-1'' (map example_block (the (reibun e)))]
         else []))"
proof -
  have "notion all_fine"
    by (simp add: notion_def all_fine_def truthy_def)
  moreover have "saveToNotion_attempt all_fine e w =
     (Inr (), w @ PagesCreate (Some ''database-1'') (page_props e) #
        (if has_examples e then [BlocksChildrenAppend ''page-1'' (map example_block (the (reibun e)))]
         else []))"
    by (simp add: saveToNotion_attempt_def all_fine_def)
  ultimately show ?thesis
    by (simp add: saveToNotion_def retry_default_def retry_int_def retry_loop_int_success)
qed

theorem ubiquitous_payload_witness:
  "notion all_fine \<and>
   snd (saveToNotion all_fine ubiquitous []) =
     [PagesCreate (Some ''database-1'') (page_props ubiquitous)] \<and>
   (\<exists>rest. snd (saveToNotion all_fine ubiquitous []) =
      [] @ PagesCreate (NOTION_DATABASE_ID all_fine) (page_props ubiquitous) # rest)"
proof -
  have n: "notion all_fine"
    by (simp add: notion_def all_fine_def truthy_def)
  have "\<not> has_examples ubiquitous"
    by (simp add: has_examples_def ubiquitous_def)
  with n ubiquitous_payload [of all_fine "[]"] saveToNotion_all_fine [of ubiquitous "[]"]
  show ?thesis by simp
qed

lemma example_block_both:
  "t \<noteq> [] \<Longrightarrow> example_block \<lparr>ei = s, nichi = Some t\<rparr> = BulletedListItem [s, em_dash @ t]"
  by (simp add: example_block_def truthy_def)

lemma example_block_source_only:
  "example_block \<lparr>ei = s, nichi = None\<rparr> = BulletedListItem [s]"
  "example_block \<lparr>ei = s, nichi = Some []\<rparr> = BulletedListItem [s]"
  by (simp_all add: example_block_def truthy_def)

text \<open>
  Claim C7, amended. For an Entry with exactly two examples, the first with a source
  and a non-empty translation and the second with a source only, the children built
  are two bulleted list items: the first holds the source and the translation behind
  the em dash separator, the second holds the source only; when the client is
  configured and the page is created, \<^verbatim>\<open>saveToNotion\<close> sends them for that page right
  after the page creation. For every Entry, every block append that \<^verbatim>\<open>saveToNotion\<close>
  issues comes from examples that are present and not empty, and carries one item per
  example.
\<close>

theorem two_examples_payload:
  "(t1 \<noteq> [] \<longrightarrow>
      map example_block [\<lparr>ei = s1, nichi = Some t1\<rparr>, \<lparr>ei = s2, nichi = None\<rparr>] =
        [BulletedListItem [s1, em_dash @ t1], BulletedListItem [s2]]) \<and>
   (t1 \<noteq> [] \<and> reibun e = Some [\<lparr>ei = s1, nichi = Some t1\<rparr>, \<lparr>ei = s2, nichi = None\<rparr>] \<and>
    notion E \<and>
    pages_create E (w @ [PagesCreate (NOTION_DATABASE_ID E) (page_props e)]) = Inr page_id \<longrightarrow>
      (\<exists>rest. snd (saveToNotion E e w) =
         w @ [PagesCreate (NOTION_DATABASE_ID E) (page_props e),
              BlocksChildrenAppend page_id
                [BulletedListItem [s1, em_dash @ t1], BulletedListItem [s2]]] @ rest)) \<and>
   (\<exists>ext. snd (saveToNotion E e w) = w @ ext \<and>
      (\<forall>x \<in> set ext. is_append x \<longrightarrow>
         (\<exists>xs page_id. reibun e = Some xs \<and> xs \<noteq> [] \<and>
            x = BlocksChildrenAppend page_id (map example_block xs))))"
proof (intro conjI impI)
  assume "t1 \<noteq> []"
  then show "map example_block [\<lparr>ei = s1, nichi = Some t1\<rparr>, \<lparr>ei = s2, nichi = None\<rparr>] =
        [BulletedListItem [s1, em_dash @ t1], BulletedListItem [s2]]"
    by (simp add: example_block_both example_block_source_only)
next
  assume a: "t1 \<noteq> [] \<and> reibun e = Some [\<lparr>ei = s1, nichi = Some t1\<rparr>, \<lparr>ei = s2, nichi = None\<rparr>] \<and>
    notion E \<and>
    pages_create E (w @ [PagesCreate (NOTION_DATABASE_ID E) (page_props e)]) = Inr page_id"
  then have h: "has_examples e" by (simp add: has_examples_def)
  from a have n: "notion E" by simp
  from saveToNotion_first [OF n, of e w] a h
  show "\<exists>rest. snd (saveToNotion E e w) =
         w @ [PagesCreate (NOTION_DATABASE_ID E) (page_props e),
              BlocksChildrenAppend page_id
                [BulletedListItem [s1, em_dash @ t1], BulletedListItem [s2]]] @ rest"
    by (simp add: example_block_both example_block_source_only)
next
  from saveToNotion_appends [of E e w] obtain ext where
    ext: "snd (saveToNotion E e w) = w @ ext"
      "list_all (\<lambda>x. is_append x \<longrightarrow> has_examples e \<and>
         (\<exists>page_id. x = BlocksChildrenAppend page_id (map example_block (the (reibun e))))) ext"
    by blast
  have "\<exists>xs page_id. reibun e = Some xs \<and> xs \<noteq> [] \<and>
      x = BlocksChildrenAppend page_id (map example_block xs)"
    if "x \<in> set ext" "is_append x" for x
  proof -
    from ext(2) that have "has_examples e"
      and "\<exists>page_id. x = BlocksChildrenAppend page_id (map example_block (the (reibun e)))"
      by (auto simp: list_all_iff)
    then show ?thesis
      by (cases "reibun e") (auto simp: has_examples_def)
  qed
  with ext(1) show "\<exists>ext. snd (saveToNotion E e w) = w @ ext \<and>
      (\<forall>x \<in> set ext. is_append x \<longrightarrow>
         (\<exists>xs page_id. reibun e = Some xs \<and> xs \<noteq> [] \<and>
            x = BlocksChildrenAppend page_id (map example_block xs)))"
    by blast
qed

theorem two_examples_payload_witness:
  "notion all_fine \<and>
   pages_create all_fine [PagesCreate (NOTION_DATABASE_ID all_fine) (page_props two_examples)] =
     Inr ''page-1'' \<and>
   snd (saveToNotion all_fine two_examples []) =
     [PagesCreate (Some ''database-1'') (page_props two_examples),
      BlocksChildrenAppend ''page-1''
        [BulletedListItem [''It is ubiquitous.'', em_dash @ ''It is everywhere.''],
         BulletedListItem [''Ubiquitous computing.'']]] \<and>
   (\<exists>rest. snd (saveToNotion all_fine two_examples []) =
      [PagesCreate (NOTION_DATABASE_ID all_fine) (page_props two_examples),
       BlocksChildrenAppend ''page-1''
         [BulletedListItem [''It is ubiquitous.'', em_dash @ ''It is everywhere.''],
          BulletedListItem [''Ubiquitous computing.'']]] @ rest)"
proof -
  have n: "notion all_fine"
    by (simp add: notion_def all_fine_def truthy_def)
  have p: "pages_create all_fine [PagesCreate (NOTION_DATABASE_ID all_fine) (page_props two_examples)] =
     Inr ''page-1''"
    by (simp add: all_fine_def)
  have r: "reibun two_examples =
      Some [\<lparr>ei = ''It is ubiquitous.'', nichi = Some ''It is everywhere.''\<rparr>,
            \<lparr>ei = ''Ubiquitous computing.'', nichi = None\<rparr>]"
    by (simp add: two_examples_def)
  then have h: "has_examples two_examples"
    by (simp add: has_examples_def)
  from two_examples_payload [of "''It is everywhere.''" "''It is ubiquitous.''" "''Ubiquitous computing.''"
      two_examples all_fine "[]" "''page-1''"] n p r
  have "\<exists>rest. snd (saveToNotion all_fine two_examples []) =
      [PagesCreate (NOTION_DATABASE_ID all_fine) (page_props two_examples),
       BlocksChildrenAppend ''page-1''
         [BulletedListItem [''It is ubiquitous.'', em_dash @ ''It is everywhere.''],
          BulletedListItem [''Ubiquitous computing.'']]] @ rest"
    by simp
  moreover have "snd (saveToNotion all_fine two_examples []) =
     [PagesCreate (Some ''database-1'') (page_props two_examples),
      BlocksChildrenAppend ''page-1''
        [BulletedListItem [''It is ubiquitous.'', em_dash @ ''It is everywhere.''],
         BulletedListItem [''Ubiquitous computing.'']]]"
    using h r by (simp add: saveToNotion_all_fine example_block_both example_block_source_only)
  ultimately show ?thesis using n p by simp
qed

text \<open>
  Claim C7 as it is written also covers a first example whose translation is the empty
  string, which the schema accepts. Its item holds the source only.
\<close>

theorem empty_translation_payload:
  "Schema_parse empty_translation_json = Inr empty_translation \<and>
   reibun empty_translation =
     Some [\<lparr>ei = ''It is ubiquitous.'', nichi = Some []\<rparr>,
           \<lparr>ei = ''Ubiquitous computing.'', nichi = None\<rparr>] \<and>
   saveToNotion all_fine empty_translation [] =
     (Inr (),
      [PagesCreate (Some ''database-1'') (page_props empty_translation),
       BlocksChildrenAppend ''page-1''
         [BulletedListItem [''It is ubiquitous.''], BulletedListItem [''Ubiquitous computing.'']]])"
proof -
  have 1: "Schema_parse empty_translation_json = Inr empty_translation"
    by (simp add: Schema_parse_def parse_def empty_translation_json_def empty_translation_def
        ubiquitous_def key_defs z_required_def z_optional_def z_min_def z_max_def)
  have r: "reibun empty_translation =
     Some [\<lparr>ei = ''It is ubiquitous.'', nichi = Some []\<rparr>,
           \<lparr>ei = ''Ubiquitous computing.'', nichi = None\<rparr>]"
    by (simp add: empty_translation_def)
  then have h: "has_examples empty_translation"
    by (simp add: has_examples_def)
  from 1 r h show ?thesis
    by (simp add: saveToNotion_all_fine example_block_source_only)
qed

text \<open>
  Claim C10. An optional string field (phonetic symbols, etymology, CEFR level, source
  URL) that is present and empty gives the same properties, with that property
  \<^verbatim>\<open>undefined\<close>, and the same run of \<^verbatim>\<open>saveToNotion\<close> as the absent field. An example
  whose translation is present and empty is rendered like one with no translation: the
  source only.
\<close>

theorem empty_string_is_unset:
  "page_props (e\<lparr>hatsuon := Some []\<rparr>) = page_props (e\<lparr>hatsuon := None\<rparr>) \<and>
   page_props (e\<lparr>gogen := Some []\<rparr>) = page_props (e\<lparr>gogen := None\<rparr>) \<and>
   page_props (e\<lparr>CEFR := Some []\<rparr>) = page_props (e\<lparr>CEFR := None\<rparr>) \<and>
   page_props (e\<lparr>shutten_URL := Some []\<rparr>) = page_props (e\<lparr>shutten_URL := None\<rparr>) \<and>
   map_of (page_props (e\<lparr>hatsuon := Some []\<rparr>)) k_hatsuon = Some None \<and>
   map_of (page_props (e\<lparr>gogen := Some []\<rparr>)) k_gogen = Some None \<and>
   map_of (page_props (e\<lparr>CEFR := Some []\<rparr>)) k_CEFR = Some None \<and>
   map_of (page_props (e\<lparr>shutten_URL := Some []\<rparr>)) k_shutten_URL = Some None \<and>
   saveToNotion E (e\<lparr>hatsuon := Some []\<rparr>) w = saveToNotion E (e\<lparr>hatsuon := None\<rparr>) w \<and>
   saveToNotion E (e\<lparr>gogen := Some []\<rparr>) w = saveToNotion E (e\<lparr>gogen := None\<rparr>) w \<and>
   saveToNotion E (e\<lparr>CEFR := Some []\<rparr>) w = saveToNotion E (e\<lparr>CEFR := None\<rparr>) w \<and>
   saveToNotion E (e\<lparr>shutten_URL := Some []\<rparr>) w = saveToNotion E (e\<lparr>shutten_URL := None\<rparr>) w \<and>
   example_block \<lparr>ei = s, nichi = Some []\<rparr> = BulletedListItem [s] \<and>
   example_block \<lparr>ei = s, nichi = None\<rparr> = BulletedListItem [s]"
proof -
  have props:
    "page_props (e\<lparr>hatsuon := Some []\<rparr>) = page_props (e\<lparr>hatsuon := None\<rparr>)"
    "page_props (e\<lparr>gogen := Some []\<rparr>) = page_props (e\<lparr>gogen := None\<rparr>)"
    "page_props (e\<lparr>CEFR := Some []\<rparr>) = page_props (e\<lparr>CEFR := None\<rparr>)"
    "page_props (e\<lparr>shutten_URL := Some []\<rparr>) = page_props (e\<lparr>shutten_URL := None\<rparr>)"
    by (simp_all add: page_props_def props_with_def if_truthy_def truthy_def)
  have unset:
    "map_of (page_props (e\<lparr>hatsuon := Some []\<rparr>)) k_hatsuon = Some None"
    "map_of (page_props (e\<lparr>gogen := Some []\<rparr>)) k_gogen = Some None"
    "map_of (page_props (e\<lparr>CEFR := Some []\<rparr>)) k_CEFR = Some None"
    "map_of (page_props (e\<lparr>shutten_URL := Some []\<rparr>)) k_shutten_URL = Some None"
    by (simp_all add: page_props_def props_with_def if_truthy_def truthy_def key_defs)
  have attempt:
    "saveToNotion_attempt E (e\<lparr>hatsuon := Some []\<rparr>) = saveToNotion_attempt E (e\<lparr>hatsuon := None\<rparr>)"
    "saveToNotion_attempt E (e\<lparr>gogen := Some []\<rparr>) = saveToNotion_attempt E (e\<lparr>gogen := None\<rparr>)"
    "saveToNotion_attempt E (e\<lparr>CEFR := Some []\<rparr>) = saveToNotion_attempt E (e\<lparr>CEFR := None\<rparr>)"
    "saveToNotion_attempt E (e\<lparr>shutten_URL := Some []\<rparr>) =
       saveToNotion_attempt E (e\<lparr>shutten_URL := None\<rparr>)"
    by (rule ext; simp add: saveToNotion_attempt_def props has_examples_def Let_def
        split: sum.splits)+
  from unset show ?thesis
    by (simp add: props saveToNotion_def attempt example_block_source_only)
qed

theorem empty_string_is_unset_witness:
  "page_props (ubiquitous\<lparr>hatsuon := Some []\<rparr>) = page_props ubiquitous \<and>
   saveToNotion all_fine (ubiquitous\<lparr>shutten_URL := Some []\<rparr>) [] =
     (Inr (), [PagesCreate (Some ''database-1'') (page_props ubiquitous)]) \<and>
   example_block \<lparr>ei = ''It is ubiquitous.'', nichi = Some []\<rparr> =
     BulletedListItem [''It is ubiquitous.'']"
proof -
  have u: "ubiquitous\<lparr>hatsuon := None\<rparr> = ubiquitous" "ubiquitous\<lparr>shutten_URL := None\<rparr> = ubiquitous"
    by (simp_all add: ubiquitous_def)
  have "\<not> has_examples ubiquitous"
    by (simp add: has_examples_def ubiquitous_def)
  with empty_string_is_unset [of ubiquitous all_fine "[]" "''It is ubiquitous.''"] u
  show ?thesis
    by (simp add: saveToNotion_all_fine)
qed


section \<open>Properties of the event dispatcher\<close>

text \<open>Neither the builder nor the persistence adapter sends a reply.\<close>

lemma buildEntry_attempt_world:
  "snd (buildEntry_attempt E word w) = w @ [ChatCompletionsCreate (model_name E) word]"
  by (simp add: buildEntry_attempt_def Let_def split: sum.splits option.splits)

lemma buildEntry_no_reply:
  "\<exists>ext. snd (buildEntry E word w) = w @ ext \<and> list_all (\<lambda>x. \<not> is_reply x) ext"
  unfolding buildEntry_def retry_default_def retry_int_def
  by (rule retry_loop_int_extends) (simp_all add: buildEntry_attempt_world)

lemma saveToNotion_no_reply:
  "\<exists>ext. snd (saveToNotion E e w) = w @ ext \<and> list_all (\<lambda>x. \<not> is_reply x) ext"
proof (cases "notion E")
  case False
  then show ?thesis by (simp add: saveToNotion_def)
next
  case True
  have "\<exists>ext. snd (retry_loop_int (saveToNotion_attempt E e) 3 0 (Finite 1000) w) = w @ ext \<and>
      list_all (\<lambda>x. \<not> is_reply x) ext"
    by (rule retry_loop_int_extends) (simp_all add: saveToNotion_attempt_world split: sum.splits)
  with True show ?thesis
    by (simp add: saveToNotion_def retry_default_def retry_int_def)
qed

lemma not_reply_not_notice: "\<not> is_reply x \<Longrightarrow> \<not> is_failure_notice x"
  by (cases x) simp_all

lemma success_text_not_failure_text: "success_text word \<noteq> failure_text"
  by (simp add: success_text_def failure_text_def)

text \<open>The \<^verbatim>\<open>try\<close> block only adds effects, and none of them is the failure notice.\<close>

lemma handleEvent_try_no_notice:
  "\<exists>ext. snd (handleEvent_try E ev w) = w @ ext \<and> list_all (\<lambda>x. \<not> is_failure_notice x) ext"
proof (cases ev)
  case (OtherEvent t tok)
  then show ?thesis by simp
next
  case (MessageEvent tok m)
  show ?thesis
  proof (cases m)
    case (OtherMessage t)
    with MessageEvent show ?thesis by simp
  next
    case (TextMessage msg)
    show ?thesis
    proof (cases "trim msg = []")
      case True
      with MessageEvent TextMessage show ?thesis by simp
    next
      case False
      let ?word = "trim msg"
      let ?w1 = "w @ [ConsoleLog (''Processing word: '' @ ?word)]"
      obtain r1 w2 where b: "buildEntry E ?word ?w1 = (r1, w2)"
        by (cases "buildEntry E ?word ?w1")
      from buildEntry_no_reply [of E ?word ?w1] b obtain ext1 where
        ext1: "w2 = ?w1 @ ext1" "list_all (\<lambda>x. \<not> is_reply x) ext1"
        by auto
      then have n1: "list_all (\<lambda>x. \<not> is_failure_notice x) ext1"
        by (auto simp: list_all_iff dest: not_reply_not_notice)
      show ?thesis
      proof (cases r1)
        case (Inl err)
        with MessageEvent TextMessage False b ext1 n1 show ?thesis by simp
      next
        case (Inr entry)
        let ?w3 = "w2 @ [ConsoleLog (''Built entry for: '' @ tango entry)]"
        obtain r2 w4 where s: "saveToNotion E entry ?w3 = (r2, w4)"
          by (cases "saveToNotion E entry ?w3")
        from saveToNotion_no_reply [of E entry ?w3] s obtain ext2 where
          ext2: "w4 = ?w3 @ ext2" "list_all (\<lambda>x. \<not> is_reply x) ext2"
          by auto
        then have n2: "list_all (\<lambda>x. \<not> is_failure_notice x) ext2"
          by (auto simp: list_all_iff dest: not_reply_not_notice)
        show ?thesis
        proof (cases r2)
          case (Inl err)
          with MessageEvent TextMessage False b Inr s ext1 n1 ext2 n2 show ?thesis by simp
        next
          case save: (Inr u)
          with MessageEvent TextMessage False b Inr s ext1 n1 ext2 n2 show ?thesis
            by (auto simp: Let_def success_text_not_failure_text split: sum.splits)
        qed
      qed
    qed
  qed
qed

text \<open>The \<^verbatim>\<open>catch\<close> block never throws; what it adds to the world.\<close>

lemma handleEvent_catch_result: "fst (handleEvent_catch E ev err w) = Inr ()"
  by (simp add: handleEvent_catch_def Let_def split: sum.splits)

lemma handleEvent_catch_world:
  "snd (handleEvent_catch E ev err w) =
     w @ ConsoleError ''Error processing event:'' err #
       (if replyToken ev \<noteq> None \<and> lineClient E then
          ReplyMessage (replyToken ev) failure_text #
            (case replyMessage E (w @ [ConsoleError ''Error processing event:'' err,
                                        ReplyMessage (replyToken ev) failure_text]) of
               Inl replyErr \<Rightarrow> [ConsoleError ''Failed to send error reply:'' (Thrown replyErr)]
             | Inr u \<Rightarrow> [])
        else [])"
  by (simp add: handleEvent_catch_def Let_def split: sum.splits)

lemma handleEventSafely_result: "fst (handleEventSafely E ev w) = Inr ()"
  by (cases "handleEvent_try E ev w")
    (simp add: handleEventSafely_def handleEvent_catch_result split: sum.splits)

lemma handleEventSafely_notice:
  "\<exists>ext. snd (handleEventSafely E ev w) = w @ ext \<and>
     (\<forall>x \<in> set ext. is_failure_notice x \<longrightarrow>
        x = ReplyMessage (replyToken ev) failure_text \<and> replyToken ev \<noteq> None \<and> lineClient E)"
proof -
  obtain r w' where t: "handleEvent_try E ev w = (r, w')"
    by (cases "handleEvent_try E ev w")
  from handleEvent_try_no_notice [of E ev w] t obtain ext where
    ext: "w' = w @ ext" "list_all (\<lambda>x. \<not> is_failure_notice x) ext"
    by auto
  show ?thesis
  proof (cases r)
    case (Inr u)
    with t ext show ?thesis
      by (auto simp: handleEventSafely_def list_all_iff)
  next
    case (Inl err)
    let ?more = "ConsoleError ''Error processing event:'' err #
       (if replyToken ev \<noteq> None \<and> lineClient E then
          ReplyMessage (replyToken ev) failure_text #
            (case replyMessage E (w' @ [ConsoleError ''Error processing event:'' err,
                                         ReplyMessage (replyToken ev) failure_text]) of
               Inl replyErr \<Rightarrow> [ConsoleError ''Failed to send error reply:'' (Thrown replyErr)]
             | Inr u \<Rightarrow> [])
        else [])"
    from t Inl have "snd (handleEventSafely E ev w) = w' @ ?more"
      by (simp add: handleEventSafely_def handleEvent_catch_world)
    with ext(1) have w: "snd (handleEventSafely E ev w) = w @ (ext @ ?more)"
      by simp
    have "\<forall>x \<in> set (ext @ ?more). is_failure_notice x \<longrightarrow>
        x = ReplyMessage (replyToken ev) failure_text \<and> replyToken ev \<noteq> None \<and> lineClient E"
      using ext(2) by (auto simp: list_all_iff split: sum.splits)
    with w show ?thesis by blast
  qed
qed

text \<open>Every promise of a batch resolves, so the batch resolves and the status is 200.\<close>

lemma settle_all_results: "fst (settle_all E evs w) = map (\<lambda>ev. Inr ()) evs"
proof (induction evs arbitrary: w)
  case Nil
  show ?case by simp
next
  case (Cons ev evs)
  obtain r w' where h: "handleEventSafely E ev w = (r, w')"
    by (cases "handleEventSafely E ev w")
  with handleEventSafely_result [of E ev w] have r: "r = Inr ()" by simp
  obtain rs w'' where s: "settle_all E evs w' = (rs, w'')"
    by (cases "settle_all E evs w'")
  with Cons.IH [of w'] have "rs = map (\<lambda>ev. Inr ()) evs" by simp
  with h r s show ?case by simp
qed

lemma Promise_all_resolved: "Promise_all (map (\<lambda>ev. Inr ()) evs) = Inr (map (\<lambda>ev. ()) evs)"
  by (induction evs) simp_all

lemma handler_ok: "fst (handler E ''POST'' (Some evs) w) = 200"
proof -
  obtain rs w' where s: "settle_all E evs w = (rs, w')"
    by (cases "settle_all E evs w")
  with settle_all_results [of E evs w] have "rs = map (\<lambda>ev. Inr ()) evs" by simp
  with s show ?thesis
    by (simp add: handler_def Promise_all_resolved)
qed

text \<open>The \<^verbatim>\<open>try\<close> block on a text message: where an error leaves it.\<close>

lemma handleEvent_try_text:
  assumes "trim msg \<noteq> []"
  shows "handleEvent_try E (MessageEvent tok (TextMessage msg)) w =
     (case buildEntry E (trim msg) (w @ [ConsoleLog (''Processing word: '' @ trim msg)]) of
        (Inl err, w2) \<Rightarrow> (Inl err, w2)
      | (Inr entry, w2) \<Rightarrow>
          (case saveToNotion E entry (w2 @ [ConsoleLog (''Built entry for: '' @ tango entry)]) of
             (Inl err, w4) \<Rightarrow> (Inl err, w4)
           | (Inr u, w4) \<Rightarrow>
               if lineClient E then
                 (case replyMessage E
                         (w4 @ [ConsoleLog (''Saved to Notion: '' @ tango entry),
                                ReplyMessage tok (success_text (tango entry))]) of
                    Inl err \<Rightarrow>
                      (Inl (Thrown err),
                       w4 @ [ConsoleLog (''Saved to Notion: '' @ tango entry),
                             ReplyMessage tok (success_text (tango entry))])
                  | Inr u \<Rightarrow>
                      (Inr (),
                       w4 @ [ConsoleLog (''Saved to Notion: '' @ tango entry),
                             ReplyMessage tok (success_text (tango entry))]))
               else (Inr (), w4 @ [ConsoleLog (''Saved to Notion: '' @ tango entry)])))"
  using assms by (simp add: Let_def split: prod.splits sum.splits)

text \<open>
  Claim C8. For every event, environment and world:
  \<^item> \<^verbatim>\<open>handleEventSafely\<close> never throws, and neither does its \<^verbatim>\<open>catch\<close> block, whatever
    error it is entered with;
  \<^item> \<^verbatim>\<open>handleEventSafely\<close> only adds effects to the world, and a failure notice among
    them is the reply to the token of the event, sent only when the event has a reply
    token and the reply client is configured;
  \<^item> when sending the notice fails, the \<^verbatim>\<open>catch\<close> block logs that error and returns;
  \<^item> so \<^verbatim>\<open>Promise.all\<close> over \<^verbatim>\<open>handleEventSafely\<close> resolves for every batch, and the
    handler answers a POST with status 200;
  \<^item> every error that leaves the \<^verbatim>\<open>try\<close> block enters the \<^verbatim>\<open>catch\<close> block, and a
    \<^verbatim>\<open>try\<close> block that returns is the whole run;
  \<^item> the \<^verbatim>\<open>catch\<close> block always logs the error it is entered with, first, then sends
    the notice under the two conditions above, then logs the failure of the notice if
    it failed, and does nothing else;
  \<^item> on a text message whose trimmed text is not empty, an error thrown while building
    the entry, while saving it, or while sending the confirmation, leaves the
    \<^verbatim>\<open>try\<close> block as it is (and so is caught and logged).
\<close>

theorem handleEventSafely_never_throws:
  "fst (handleEventSafely E ev w) = Inr () \<and>
   fst (handleEvent_catch E ev err w) = Inr () \<and>
   (\<exists>ext. snd (handleEventSafely E ev w) = w @ ext \<and>
      (\<forall>x \<in> set ext. is_failure_notice x \<longrightarrow>
         x = ReplyMessage (replyToken ev) failure_text \<and> replyToken ev \<noteq> None \<and> lineClient E)) \<and>
   (replyToken ev \<noteq> None \<and> lineClient E \<and>
    replyMessage E (w @ [ConsoleError ''Error processing event:'' err,
                         ReplyMessage (replyToken ev) failure_text]) = Inl replyErr \<longrightarrow>
      handleEvent_catch E ev err w =
        (Inr (), w @ [ConsoleError ''Error processing event:'' err,
                      ReplyMessage (replyToken ev) failure_text,
                      ConsoleError ''Failed to send error reply:'' (Thrown replyErr)])) \<and>
   Promise_all (fst (settle_all E evs w)) = Inr (map (\<lambda>ev. ()) evs) \<and>
   fst (handler E ''POST'' (Some evs) w) = 200 \<and>
   (handleEvent_try E ev w = (Inl err, w') \<longrightarrow>
      handleEventSafely E ev w = handleEvent_catch E ev err w') \<and>
   (handleEvent_try E ev w = (Inr u, w') \<longrightarrow> handleEventSafely E ev w = (Inr (), w')) \<and>
   snd (handleEvent_catch E ev err w) =
     w @ ConsoleError ''Error processing event:'' err #
       (if replyToken ev \<noteq> None \<and> lineClient E then
          ReplyMessage (replyToken ev) failure_text #
            (case replyMessage E (w @ [ConsoleError ''Error processing event:'' err,
                                        ReplyMessage (replyToken ev) failure_text]) of
               Inl replyErr \<Rightarrow> [ConsoleError ''Failed to send error reply:'' (Thrown replyErr)]
             | Inr u \<Rightarrow> [])
        else []) \<and>
   (trim msg \<noteq> [] \<and>
    buildEntry E (trim msg) (w @ [ConsoleLog (''Processing word: '' @ trim msg)]) = (Inl err, w2) \<longrightarrow>
      handleEvent_try E (MessageEvent tok (TextMessage msg)) w = (Inl err, w2)) \<and>
   (trim msg \<noteq> [] \<and>
    buildEntry E (trim msg) (w @ [ConsoleLog (''Processing word: '' @ trim msg)]) = (Inr entry, w2) \<and>
    saveToNotion E entry (w2 @ [ConsoleLog (''Built entry for: '' @ tango entry)]) = (Inl err, w4) \<longrightarrow>
      handleEvent_try E (MessageEvent tok (TextMessage msg)) w = (Inl err, w4)) \<and>
   (trim msg \<noteq> [] \<and>
    buildEntry E (trim msg) (w @ [ConsoleLog (''Processing word: '' @ trim msg)]) = (Inr entry, w2) \<and>
    saveToNotion E entry (w2 @ [ConsoleLog (''Built entry for: '' @ tango entry)]) = (Inr u, w4) \<and>
    lineClient E \<and>
    replyMessage E (w4 @ [ConsoleLog (''Saved to Notion: '' @ tango entry),
                          ReplyMessage tok (success_text (tango entry))]) = Inl replyErr \<longrightarrow>
      handleEvent_try E (MessageEvent tok (TextMessage msg)) w =
        (Inl (Thrown replyErr),
         w4 @ [ConsoleLog (''Saved to Notion: '' @ tango entry),
               ReplyMessage tok (success_text (tango entry))]))"
proof (intro conjI impI)
  show "fst (handleEventSafely E ev w) = Inr ()" by (rule handleEventSafely_result)
  show "fst (handleEvent_catch E ev err w) = Inr ()" by (rule handleEvent_catch_result)
  show "\<exists>ext. snd (handleEventSafely E ev w) = w @ ext \<and>
      (\<forall>x \<in> set ext. is_failure_notice x \<longrightarrow>
         x = ReplyMessage (replyToken ev) failure_text \<and> replyToken ev \<noteq> None \<and> lineClient E)"
    by (rule handleEventSafely_notice)
  show "Promise_all (fst (settle_all E evs w)) = Inr (map (\<lambda>ev. ()) evs)"
    by (simp add: settle_all_results Promise_all_resolved)
  show "fst (handler E ''POST'' (Some evs) w) = 200" by (rule handler_ok)
  show "snd (handleEvent_catch E ev err w) =
     w @ ConsoleError ''Error processing event:'' err #
       (if replyToken ev \<noteq> None \<and> lineClient E then
          ReplyMessage (replyToken ev) failure_text #
            (case replyMessage E (w @ [ConsoleError ''Error processing event:'' err,
                                        ReplyMessage (replyToken ev) failure_text]) of
               Inl replyErr \<Rightarrow> [ConsoleError ''Failed to send error reply:'' (Thrown replyErr)]
             | Inr u \<Rightarrow> [])
        else [])"
    by (rule handleEvent_catch_world)
next
  assume "replyToken ev \<noteq> None \<and> lineClient E \<and>
    replyMessage E (w @ [ConsoleError ''Error processing event:'' err,
                         ReplyMessage (replyToken ev) failure_text]) = Inl replyErr"
  then show "handleEvent_catch E ev err w =
        (Inr (), w @ [ConsoleError ''Error processing event:'' err,
                      ReplyMessage (replyToken ev) failure_text,
                      ConsoleError ''Failed to send error reply:'' (Thrown replyErr)])"
    by (simp add: handleEvent_catch_def)
next
  assume "handleEvent_try E ev w = (Inl err, w')"
  then show "handleEventSafely E ev w = handleEvent_catch E ev err w'"
    by (simp add: handleEventSafely_def)
next
  assume "handleEvent_try E ev w = (Inr u, w')"
  then show "handleEventSafely E ev w = (Inr (), w')"
    by (simp add: handleEventSafely_def)
next
  assume "trim msg \<noteq> [] \<and>
    buildEntry E (trim msg) (w @ [ConsoleLog (''Processing word: '' @ trim msg)]) = (Inl err, w2)"
  then show "handleEvent_try E (MessageEvent tok (TextMessage msg)) w = (Inl err, w2)"
    by (simp add: handleEvent_try_text)
next
  assume "trim msg \<noteq> [] \<and>
    buildEntry E (trim msg) (w @ [ConsoleLog (''Processing word: '' @ trim msg)]) = (Inr entry, w2) \<and>
    saveToNotion E entry (w2 @ [ConsoleLog (''Built entry for: '' @ tango entry)]) = (Inl err, w4)"
  then show "handleEvent_try E (MessageEvent tok (TextMessage msg)) w = (Inl err, w4)"
    by (simp add: handleEvent_try_text)
next
  assume "trim msg \<noteq> [] \<and>
    buildEntry E (trim msg) (w @ [ConsoleLog (''Processing word: '' @ trim msg)]) = (Inr entry, w2) \<and>
    saveToNotion E entry (w2 @ [ConsoleLog (''Built entry for: '' @ tango entry)]) = (Inr u, w4) \<and>
    lineClient E \<and>
    replyMessage E (w4 @ [ConsoleLog (''Saved to Notion: '' @ tango entry),
                          ReplyMessage tok (success_text (tango entry))]) = Inl replyErr"
  then show "handleEvent_try E (MessageEvent tok (TextMessage msg)) w =
        (Inl (Thrown replyErr),
         w4 @ [ConsoleLog (''Saved to Notion: '' @ tango entry),
               ReplyMessage tok (success_text (tango entry))])"
    by (simp add: handleEvent_try_text)
qed

text \<open>
  A run in the environment \<open>all_down\<close>: the entry is built, every attempt to create
  the page fails, the error is logged, the notice is sent, and the failure to send it
  is logged too.
\<close>

lemma trim_cat: "trim '' cat '' = ''cat''"
  by code_simp

lemma buildEntry_all_down:
  "buildEntry all_down word w = (Inr reply_entry, w @ [ChatCompletionsCreate ''gpt-4o-mini'' word])"
proof -
  have "reply_text \<noteq> []" by (simp add: reply_text_def)
  then have "buildEntry_attempt all_down word w =
      (Inr reply_entry, w @ [ChatCompletionsCreate ''gpt-4o-mini'' word])"
    by (simp add: buildEntry_attempt_def all_down_def notion_down_def all_fine_def model_name_def
        truthy_def Schema_parse_reply)
  then show ?thesis
    by (simp add: buildEntry_def retry_default_def retry_int_def retry_loop_int_success)
qed

lemma saveToNotion_attempt_all_down:
  "saveToNotion_attempt all_down e w =
     (Inl (External ''503''), w @ [PagesCreate (Some ''database-1'') (page_props e)])"
  by (simp add: saveToNotion_attempt_def all_down_def notion_down_def all_fine_def)

lemma saveToNotion_all_down:
  "saveToNotion all_down e w =
     (Inl (Thrown (External ''503'')),
      w @ [PagesCreate (Some ''database-1'') (page_props e),
           ConsoleWarn 1 (Finite 1000) (External ''503''), Sleep (Finite 1000),
           PagesCreate (Some ''database-1'') (page_props e),
           ConsoleWarn 2 (Finite 2000) (External ''503''), Sleep (Finite 2000),
           PagesCreate (Some ''database-1'') (page_props e)])"
proof -
  have n: "notion all_down"
    by (simp add: notion_def all_down_def notion_down_def all_fine_def truthy_def)
  let ?fn = "saveToNotion_attempt all_down e"
  let ?p = "PagesCreate (Some ''database-1'') (page_props e)"
  let ?w1 = "w @ [?p, ConsoleWarn 1 (Finite 1000) (External ''503''), Sleep (Finite 1000)]"
  let ?w2 = "w @ [?p, ConsoleWarn 1 (Finite 1000) (External ''503''), Sleep (Finite 1000),
                  ?p, ConsoleWarn 2 (Finite 2000) (External ''503''), Sleep (Finite 2000)]"
  have "retry_loop_int ?fn 3 0 (Finite 1000) w = retry_loop_int ?fn 3 1 (Finite 2000) ?w1"
    using retry_loop_int_again [of 0 3 ?fn w "External ''503''" "w @ [?p]" "Finite 1000"]
    by (simp add: saveToNotion_attempt_all_down)
  also have "\<dots> = retry_loop_int ?fn 3 2 (Finite 4000) ?w2"
    using retry_loop_int_again [of 1 3 ?fn ?w1 "External ''503''" "?w1 @ [?p]" "Finite 2000"]
    by (simp add: saveToNotion_attempt_all_down)
  also have "\<dots> = (Inl (Thrown (External ''503'')), ?w2 @ [?p])"
    by (rule retry_loop_int_last) (simp_all add: saveToNotion_attempt_all_down)
  finally show ?thesis
    using n by (simp add: saveToNotion_def retry_default_def retry_int_def)
qed

theorem handleEventSafely_never_throws_witness:
  "handleEventSafely all_down cat_event [] =
     (Inr (),
      [ConsoleLog ''Processing word: cat'',
       ChatCompletionsCreate ''gpt-4o-mini'' ''cat'',
       ConsoleLog ''Built entry for: '',
       PagesCreate (Some ''database-1'') (page_props reply_entry),
       ConsoleWarn 1 (Finite 1000) (External ''503''), Sleep (Finite 1000),
       PagesCreate (Some ''database-1'') (page_props reply_entry),
       ConsoleWarn 2 (Finite 2000) (External ''503''), Sleep (Finite 2000),
       PagesCreate (Some ''database-1'') (page_props reply_entry),
       ConsoleError ''Error processing event:'' (Thrown (External ''503'')),
       ReplyMessage (Some ''token-1'') failure_text,
       ConsoleError ''Failed to send error reply:'' (Thrown (External ''429''))]) \<and>
   replyToken cat_event \<noteq> None \<and> lineClient all_down \<and>
   handleEvent_catch all_down cat_event (Thrown (External ''503'')) [] =
     (Inr (),
      [ConsoleError ''Error processing event:'' (Thrown (External ''503'')),
       ReplyMessage (Some ''token-1'') failure_text,
       ConsoleError ''Failed to send error reply:'' (Thrown (External ''429''))]) \<and>
   fst (handler all_down ''POST''
          (Some [cat_event, OtherEvent ''follow'' (Some ''token-2''), cat_event]) []) = 200"
proof -
  have l: "lineClient all_down"
    by (simp add: lineClient_def all_down_def notion_down_def all_fine_def truthy_def)
  have r: "replyToken cat_event = Some ''token-1''"
    by (simp add: cat_event_def)
  have m: "replyMessage all_down = (\<lambda>w. Inl (External ''429''))"
    by (simp add: all_down_def)
  have t: "tango reply_entry = []"
    by (simp add: reply_entry_def)
  have tr: "handleEvent_try all_down cat_event [] =
     (Inl (Thrown (External ''503'')),
      [ConsoleLog ''Processing word: cat'',
       ChatCompletionsCreate ''gpt-4o-mini'' ''cat'',
       ConsoleLog ''Built entry for: '',
       PagesCreate (Some ''database-1'') (page_props reply_entry),
       ConsoleWarn 1 (Finite 1000) (External ''503''), Sleep (Finite 1000),
       PagesCreate (Some ''database-1'') (page_props reply_entry),
       ConsoleWarn 2 (Finite 2000) (External ''503''), Sleep (Finite 2000),
       PagesCreate (Some ''database-1'') (page_props reply_entry)])"
    by (simp add: cat_event_def trim_cat buildEntry_all_down saveToNotion_all_down t Let_def)
  from handleEventSafely_never_throws [where E = all_down and ev = cat_event and w = "[]"
      and err = "Thrown (External ''503'')" and replyErr = "External ''429''"
      and evs = "[cat_event, OtherEvent ''follow'' (Some ''token-2''), cat_event]"]
    l r m
  have c: "handleEvent_catch all_down cat_event (Thrown (External ''503'')) [] =
     (Inr (),
      [ConsoleError ''Error processing event:'' (Thrown (External ''503'')),
       ReplyMessage (Some ''token-1'') failure_text,
       ConsoleError ''Failed to send error reply:'' (Thrown (External ''429''))])"
    and h: "fst (handler all_down ''POST''
          (Some [cat_event, OtherEvent ''follow'' (Some ''token-2''), cat_event]) []) = 200"
    by simp_all
  have "handleEventSafely all_down cat_event [] =
     (Inr (),
      [ConsoleLog ''Processing word: cat'',
       ChatCompletionsCreate ''gpt-4o-mini'' ''cat'',
       ConsoleLog ''Built entry for: '',
       PagesCreate (Some ''database-1'') (page_props reply_entry),
       ConsoleWarn 1 (Finite 1000) (External ''503''), Sleep (Finite 1000),
       PagesCreate (Some ''database-1'') (page_props reply_entry),
       ConsoleWarn 2 (Finite 2000) (External ''503''), Sleep (Finite 2000),
       PagesCreate (Some ''database-1'') (page_props reply_entry),
       ConsoleError ''Error processing event:'' (Thrown (External ''503'')),
       ReplyMessage (Some ''token-1'') failure_text,
       ConsoleError ''Failed to send error reply:'' (Thrown (External ''429''))])"
    by (simp add: handleEventSafely_def tr handleEvent_catch_def l r m)
  with l r c h show ?thesis by simp
qed

end
